theory Spec2Isabelle
  imports Main
begin

unbundle bit_operations_syntax

section \<open>Python values and exceptions\<close>

text \<open>
  The exceptions that the modelled parts of \<^verbatim>\<open>skoolkit/skoolhtml.py\<close> can raise.
  A function that may raise returns \<open>error + 'a\<close>, with \<open>Inl\<close> for the exception.
\<close>

datatype error =
    IndexError
  | ValueError
  | ZeroDivisionError
  | AttributeError
  | MacroParsingError string
  | SkoolKitError string

text \<open>
  Python resolves an index \<open>i\<close> into a sequence of \<open>n\<close> items to a position:
  \<open>i\<close> itself when it lies in \<open>0..n-1\<close>, \<open>n + i\<close> when it lies in \<open>-n..-1\<close>,
  and no position (IndexError) otherwise.
\<close>

definition py_index :: "nat \<Rightarrow> int \<Rightarrow> nat option" where
  "py_index n i =
     (if 0 \<le> i \<and> i < int n then Some (nat i)
      else if - int n \<le> i \<and> i < 0 then Some (nat (int n + i))
      else None)"

text \<open>The read \<^verbatim>\<open>xs[i]\<close> and the assignment \<^verbatim>\<open>xs[i] = v\<close>.\<close>

definition py_get :: "'a list \<Rightarrow> int \<Rightarrow> error + 'a" where
  "py_get xs i =
     (case py_index (length xs) i of
        None \<Rightarrow> Inl IndexError
      | Some j \<Rightarrow> Inr (xs ! j))"

definition py_set :: "'a list \<Rightarrow> int \<Rightarrow> 'a \<Rightarrow> error + 'a list" where
  "py_set xs i v =
     (case py_index (length xs) i of
        None \<Rightarrow> Inl IndexError
      | Some j \<Rightarrow> Inr (xs[j := v]))"

section \<open>The snapshot stack of HtmlWriter\<close>

text \<open>
  A snapshot is a Python list of integers, and lists are objects: \<^verbatim>\<open>self.snapshot\<close>
  and the first component of an entry of \<^verbatim>\<open>self._snapshots\<close> are references.
  The store \<open>heap\<close> holds the list objects; a reference is an index into it, and
  a new object is appended to the store.
\<close>

type_synonym ref = nat

record writer =
  heap :: "int list list"
  snapshot :: ref
  snapshots :: "(ref \<times> string) list"

text \<open>
  The functions below take any record that has these three fields, so that they apply
  as they are to the writer with its image state, defined further on.
\<close>

text \<open>
  \<^verbatim>\<open>HtmlWriter.__init__\<close>, lines 115-116:
  \<^verbatim>\<open>self.snapshot = self.parser.snapshot; self._snapshots = [(self.snapshot, '')]\<close>.
\<close>

definition init_writer :: "int list \<Rightarrow> writer" where
  "init_writer snap = \<lparr>heap = [snap], snapshot = 0, snapshots = [(0, '''')]\<rparr>"

text \<open>\<^verbatim>\<open>get_snapshot_name\<close>: \<^verbatim>\<open>return self._snapshots[-1][1]\<close>.\<close>

definition get_snapshot_name :: "'a writer_scheme \<Rightarrow> error + string" where
  "get_snapshot_name w =
     (if snapshots w = [] then Inl IndexError else Inr (snd (last (snapshots w))))"

text \<open>
  \<^verbatim>\<open>pop_snapshot\<close>: \<^verbatim>\<open>self.snapshot = self._snapshots.pop()[0]\<close>.
  \<^verbatim>\<open>list.pop()\<close> raises IndexError on an empty list, before anything is assigned.
\<close>

definition pop_snapshot :: "'a writer_scheme \<Rightarrow> error + 'a writer_scheme" where
  "pop_snapshot w =
     (if snapshots w = [] then Inl IndexError
      else Inr (w\<lparr>snapshot := fst (last (snapshots w)),
                  snapshots := butlast (snapshots w)\<rparr>))"

text \<open>
  \<^verbatim>\<open>push_snapshot\<close>: \<^verbatim>\<open>self._snapshots.append((self.snapshot[:], name))\<close>.
  The slice \<^verbatim>\<open>self.snapshot[:]\<close> is a new list object with the same contents;
  \<^verbatim>\<open>self.snapshot\<close> itself is not reassigned.
\<close>

definition push_snapshot :: "string \<Rightarrow> 'a writer_scheme \<Rightarrow> 'a writer_scheme" where
  "push_snapshot name w =
     w\<lparr>heap := heap w @ [heap w ! snapshot w],
       snapshots := snapshots w @ [(length (heap w), name)]\<rparr>"

text \<open>
  Modelled from the spec: the poke-style write of \<^verbatim>\<open>skoolmacro.parse_pokes\<close>
  (called by \<^verbatim>\<open>expand_pokes\<close> with \<^verbatim>\<open>self.snapshot\<close>; it is defined in the module
  \<^verbatim>\<open>skoolmacro\<close>, outside \<^verbatim>\<open>skoolhtml.py\<close>), as the list assignment
  \<^verbatim>\<open>snapshot[addr] = v\<close> on the object that \<^verbatim>\<open>self.snapshot\<close> refers to.
\<close>

definition poke :: "int \<Rightarrow> int \<Rightarrow> 'a writer_scheme \<Rightarrow> error + 'a writer_scheme" where
  "poke addr v w =
     (case py_set (heap w ! snapshot w) addr v of
        Inl e \<Rightarrow> Inl e
      | Inr s \<Rightarrow> Inr (w\<lparr>heap := (heap w)[snapshot w := s]\<rparr>))"

text \<open>The contents of the current snapshot, and the byte read \<^verbatim>\<open>self.snapshot[addr]\<close>.\<close>

definition current :: "'a writer_scheme \<Rightarrow> int list" where
  "current w = heap w ! snapshot w"

definition peek :: "'a writer_scheme \<Rightarrow> int \<Rightarrow> error + int" where
  "peek w addr = py_get (current w) addr"

text \<open>The sequence \<^verbatim>\<open>push_snapshot(name); snapshot[addr] = v; pop_snapshot()\<close>.\<close>

definition push_poke_pop ::
  "string \<Rightarrow> int \<Rightarrow> int \<Rightarrow> 'a writer_scheme \<Rightarrow> error + 'a writer_scheme" where
  "push_poke_pop name addr v w =
     (case poke addr v (push_snapshot name w) of
        Inl e \<Rightarrow> Inl e
      | Inr w1 \<Rightarrow> pop_snapshot w1)"

section \<open>Tiles: the class Udg\<close>

text \<open>The byte flip table \<^verbatim>\<open>FLIP\<close> (lines 64-81), a tuple of 256 integers.\<close>

definition FLIP :: "int list" where
  "FLIP = [
    0, 128, 64, 192, 32, 160, 96, 224, 16, 144, 80, 208, 48, 176, 112, 240,
    8, 136, 72, 200, 40, 168, 104, 232, 24, 152, 88, 216, 56, 184, 120, 248,
    4, 132, 68, 196, 36, 164, 100, 228, 20, 148, 84, 212, 52, 180, 116, 244,
    12, 140, 76, 204, 44, 172, 108, 236, 28, 156, 92, 220, 60, 188, 124, 252,
    2, 130, 66, 194, 34, 162, 98, 226, 18, 146, 82, 210, 50, 178, 114, 242,
    10, 138, 74, 202, 42, 170, 106, 234, 26, 154, 90, 218, 58, 186, 122, 250,
    6, 134, 70, 198, 38, 166, 102, 230, 22, 150, 86, 214, 54, 182, 118, 246,
    14, 142, 78, 206, 46, 174, 110, 238, 30, 158, 94, 222, 62, 190, 126, 254,
    1, 129, 65, 193, 33, 161, 97, 225, 17, 145, 81, 209, 49, 177, 113, 241,
    9, 137, 73, 201, 41, 169, 105, 233, 25, 153, 89, 217, 57, 185, 121, 249,
    5, 133, 69, 197, 37, 165, 101, 229, 21, 149, 85, 213, 53, 181, 117, 245,
    13, 141, 77, 205, 45, 173, 109, 237, 29, 157, 93, 221, 61, 189, 125, 253,
    3, 131, 67, 195, 35, 163, 99, 227, 19, 147, 83, 211, 51, 179, 115, 243,
    11, 139, 75, 203, 43, 171, 107, 235, 27, 155, 91, 219, 59, 187, 123, 251,
    7, 135, 71, 199, 39, 167, 103, 231, 23, 151, 87, 215, 55, 183, 119, 247,
    15, 143, 79, 207, 47, 175, 111, 239, 31, 159, 95, 223, 63, 191, 127, 255]"

text \<open>
  \<^verbatim>\<open>Udg.__init__(attr, data, mask=None)\<close>. The graphic data and the mask are Python
  lists of integers; a tile without a mask has \<^verbatim>\<open>mask = None\<close>. Equality of records
  is \<^verbatim>\<open>Udg.__eq__\<close>: attribute, data and mask all equal.
\<close>

record udg =
  udg_attr :: int
  udg_data :: "int list"
  udg_mask :: "int list option"

text \<open>The test \<^verbatim>\<open>if self.mask:\<close> is false for \<^verbatim>\<open>None\<close> and for the empty list.\<close>

definition truthy :: "'a list option \<Rightarrow> bool" where
  "truthy m = (case m of None \<Rightarrow> False | Some xs \<Rightarrow> xs \<noteq> [])"

text \<open>The assignment \<^verbatim>\<open>xs[i] = FLIP[xs[i]]\<close> for an index \<open>i\<close> of \<^verbatim>\<open>range(8)\<close>.\<close>

definition flip_at :: "int list \<Rightarrow> nat \<Rightarrow> error + int list" where
  "flip_at xs i =
     (case py_get xs (int i) of
        Inl e \<Rightarrow> Inl e
      | Inr b \<Rightarrow>
          (case py_get FLIP b of
             Inl e \<Rightarrow> Inl e
           | Inr f \<Rightarrow> Inr (xs[i := f])))"

text \<open>
  One pass of the body of \<^verbatim>\<open>for i in range(8)\<close> in \<^verbatim>\<open>Udg.flip\<close>: the data byte,
  then the mask byte when the mask is there.
\<close>

definition flip_step :: "nat \<Rightarrow> udg \<Rightarrow> error + udg" where
  "flip_step i u =
     (case flip_at (udg_data u) i of
        Inl e \<Rightarrow> Inl e
      | Inr d \<Rightarrow>
          (case udg_mask u of
             None \<Rightarrow> Inr (u\<lparr>udg_data := d\<rparr>)
           | Some m \<Rightarrow>
               if m = [] then Inr (u\<lparr>udg_data := d\<rparr>)
               else (case flip_at m i of
                       Inl e \<Rightarrow> Inl e
                     | Inr m' \<Rightarrow> Inr (u\<lparr>udg_data := d, udg_mask := Some m'\<rparr>))))"

fun flip_loop :: "nat list \<Rightarrow> udg \<Rightarrow> error + udg" where
  "flip_loop [] u = Inr u"
| "flip_loop (i # rest) u =
     (case flip_step i u of
        Inl e \<Rightarrow> Inl e
      | Inr u' \<Rightarrow> flip_loop rest u')"

text \<open>\<^verbatim>\<open>self.data.reverse()\<close>, and \<^verbatim>\<open>self.mask.reverse()\<close> under \<^verbatim>\<open>if self.mask:\<close>.\<close>

definition reverse_udg :: "udg \<Rightarrow> udg" where
  "reverse_udg u =
     u\<lparr>udg_data := rev (udg_data u),
       udg_mask := (if truthy (udg_mask u) then map_option rev (udg_mask u) else udg_mask u)\<rparr>"

text \<open>\<^verbatim>\<open>Udg.flip(flip)\<close> (lines 1618-1632); the tile is changed in place, and returned here.\<close>

definition flip :: "int \<Rightarrow> udg \<Rightarrow> error + udg" where
  "flip f u =
     (case (if f AND 1 \<noteq> 0 then flip_loop [0..<8] u else Inr u) of
        Inl e \<Rightarrow> Inl e
      | Inr u1 \<Rightarrow> Inr (if f AND 2 \<noteq> 0 then reverse_udg u1 else u1))"

text \<open>
  \<^verbatim>\<open>Udg._rotate_tile\<close> (lines 1604-1616). The inner loop over the bytes of the tile
  builds one byte for the bit \<open>b\<close>; the outer loop doubles \<open>b\<close> from 1 while it is
  below 129, so \<open>b\<close> takes the values 1, 2, 4, ..., 128 in this order; the collected
  bytes are reversed at the end.
\<close>

definition rotate_row :: "int \<Rightarrow> int list \<Rightarrow> int" where
  "rotate_row b tile_data =
     foldl (\<lambda>rbyte byte. rbyte div 2 + (if byte AND b \<noteq> 0 then 128 else 0)) 0 tile_data"

definition rotate_tile :: "int list \<Rightarrow> int list" where
  "rotate_tile tile_data = rev (map (\<lambda>b. rotate_row b tile_data) [1, 2, 4, 8, 16, 32, 64, 128])"

text \<open>
  \<^verbatim>\<open>Udg.rotate(rotate)\<close> (lines 1634-1642): the body of the loop, and the loop over
  \<^verbatim>\<open>range(rotate & 3)\<close>.
\<close>

definition rotate_once :: "udg \<Rightarrow> udg" where
  "rotate_once u =
     u\<lparr>udg_data := rotate_tile (udg_data u),
       udg_mask := (if truthy (udg_mask u) then map_option rotate_tile (udg_mask u) else udg_mask u)\<rparr>"

definition rotate_udg :: "int \<Rightarrow> udg \<Rightarrow> udg" where
  "rotate_udg r u = (rotate_once ^^ nat (r AND 3)) u"

text \<open>
  A tile as the data model has it: eight bitmap bytes, each in 0..255, and either no
  mask or a mask of the same shape.
\<close>

definition is_byte :: "int \<Rightarrow> bool" where
  "is_byte b = (0 \<le> b \<and> b < 256)"

definition tile_bytes :: "int list \<Rightarrow> bool" where
  "tile_bytes xs = (length xs = 8 \<and> list_all is_byte xs)"

definition wf_udg :: "udg \<Rightarrow> bool" where
  "wf_udg u =
     (tile_bytes (udg_data u) \<and> (case udg_mask u of None \<Rightarrow> True | Some m \<Rightarrow> tile_bytes m))"

text \<open>What the two halves of \<^verbatim>\<open>Udg.flip\<close> do to such a tile.\<close>

definition flipb :: "int \<Rightarrow> int" where
  "flipb b = FLIP ! nat b"

definition flip_bytes :: "udg \<Rightarrow> udg" where
  "flip_bytes u =
     u\<lparr>udg_data := map flipb (udg_data u), udg_mask := map_option (map flipb) (udg_mask u)\<rparr>"

section \<open>Frames: the class Frame\<close>

text \<open>
  The \<^verbatim>\<open>mask\<close> argument of \<^verbatim>\<open>Frame.__init__\<close> is a boolean or an integer:
  \<^verbatim>\<open>False\<close> is stored as 0, \<^verbatim>\<open>True\<close> as 1, anything else as it is.
\<close>

datatype mask_arg = MaskBool bool | MaskInt int

record frame =
  frame_udgs :: "udg list list"
  frame_scale :: int
  frame_mask :: int
  frame_x :: int
  frame_y :: int
  frame_full_width :: int
  frame_full_height :: int
  frame_width :: int
  frame_height :: int
  frame_delay :: int
  frame_trans :: int

text \<open>
  The expression \<^verbatim>\<open>width or self._full_width\<close>: the right operand when the left one
  is \<^verbatim>\<open>None\<close> or 0.
\<close>

definition py_or :: "int option \<Rightarrow> int \<Rightarrow> int" where
  "py_or a d = (case a of None \<Rightarrow> d | Some v \<Rightarrow> if v = 0 then d else v)"

text \<open>
  \<^verbatim>\<open>Frame.__init__\<close> (lines 1668-1684). \<^verbatim>\<open>len(udgs[0])\<close> raises IndexError on an
  array without rows.
\<close>

definition Frame ::
  "udg list list \<Rightarrow> int \<Rightarrow> mask_arg \<Rightarrow> int \<Rightarrow> int \<Rightarrow> int option \<Rightarrow> int option \<Rightarrow> int \<Rightarrow> error + frame" where
  "Frame udgs scale msk x y width height delay =
     (case udgs of
        [] \<Rightarrow> Inl IndexError
      | row0 # _ \<Rightarrow>
          Inr \<lparr>frame_udgs = udgs,
               frame_scale = scale,
               frame_mask = (case msk of MaskBool False \<Rightarrow> 0 | MaskBool True \<Rightarrow> 1 | MaskInt m \<Rightarrow> m),
               frame_x = x,
               frame_y = y,
               frame_full_width = 8 * int (length row0) * scale,
               frame_full_height = 8 * int (length udgs) * scale,
               frame_width =
                 min (py_or width (8 * int (length row0) * scale)) (8 * int (length row0) * scale - x),
               frame_height =
                 min (py_or height (8 * int (length udgs) * scale)) (8 * int (length udgs) * scale - y),
               frame_delay = delay,
               frame_trans = 0\<rparr>)"

text \<open>The property \<^verbatim>\<open>Frame.cropped\<close> (lines 1710-1712).\<close>

definition cropped :: "frame \<Rightarrow> bool" where
  "cropped f = (frame_width f \<noteq> frame_full_width f \<or> frame_height f \<noteq> frame_full_height f)"

section \<open>Address ranges: \<^verbatim>\<open>HtmlWriter._get_udg_addresses\<close>\<close>

text \<open>A list comprehension whose element expression may raise: the first exception wins.\<close>

fun collect :: "('a \<Rightarrow> error + 'b) \<Rightarrow> 'a list \<Rightarrow> error + 'b list" where
  "collect f [] = Inr []"
| "collect f (x # xs) =
     (case f x of
        Inl e \<Rightarrow> Inl e
      | Inr y \<Rightarrow> (case collect f xs of Inl e \<Rightarrow> Inl e | Inr ys \<Rightarrow> Inr (y # ys)))"

text \<open>
  \<^verbatim>\<open>s.split(sep, n)\<close> for a separator of one character: at most \<open>n\<close> splits, from the
  left; the last piece keeps any further separators.
\<close>

fun split_max :: "char \<Rightarrow> nat \<Rightarrow> string \<Rightarrow> string list" where
  "split_max sep 0 s = [s]"
| "split_max sep (Suc n) s =
     (if sep \<in> set s
      then takeWhile (\<lambda>c. c \<noteq> sep) s # split_max sep n (drop 1 (dropWhile (\<lambda>c. c \<noteq> sep) s))
      else [s])"

text \<open>
  Modelled from the spec: \<^verbatim>\<open>get_int_param\<close>, which \<^verbatim>\<open>skoolhtml.py\<close> imports from the
  package's \<^verbatim>\<open>__init__\<close> module. The spec has it that integer literals are decimal
  or hexadecimal with the prefix \<^verbatim>\<open>$\<close>; anything else is a ValueError.
\<close>

definition digit_of :: "char \<Rightarrow> int option" where
  "digit_of c =
     (let n = (of_char c :: int)
      in if 48 \<le> n \<and> n \<le> 57 then Some (n - 48) else None)"

definition hex_digit_of :: "char \<Rightarrow> int option" where
  "hex_digit_of c =
     (let n = (of_char c :: int)
      in if 48 \<le> n \<and> n \<le> 57 then Some (n - 48)
         else if 65 \<le> n \<and> n \<le> 70 then Some (n - 55)
         else if 97 \<le> n \<and> n \<le> 102 then Some (n - 87)
         else None)"

fun digits_value :: "int \<Rightarrow> (char \<Rightarrow> int option) \<Rightarrow> int \<Rightarrow> string \<Rightarrow> int option" where
  "digits_value base dig acc [] = Some acc"
| "digits_value base dig acc (c # cs) =
     (case dig c of
        None \<Rightarrow> None
      | Some d \<Rightarrow> digits_value base dig (acc * base + d) cs)"

definition literal_value :: "int \<Rightarrow> (char \<Rightarrow> int option) \<Rightarrow> string \<Rightarrow> error + int" where
  "literal_value base dig s =
     (if s = [] then Inl ValueError
      else (case digits_value base dig 0 s of
              None \<Rightarrow> Inl ValueError
            | Some n \<Rightarrow> Inr n))"

definition get_int_param :: "string \<Rightarrow> error + int" where
  "get_int_param num_str =
     (if num_str \<noteq> [] \<and> hd num_str = CHR ''$''
      then literal_value 16 hex_digit_of (tl num_str)
      else literal_value 10 digit_of num_str)"

text \<open>
  Modelled from the spec: \<^verbatim>\<open>parse_int\<close> of the same module, the variant of
  \<^verbatim>\<open>get_int_param\<close> that returns \<^verbatim>\<open>None\<close> where that one raises.
\<close>

definition parse_int :: "string \<Rightarrow> int option" where
  "parse_int num_str = (case get_int_param num_str of Inl e \<Rightarrow> None | Inr v \<Rightarrow> Some v)"

text \<open>
  The address specification is the integer that the parameter parser made of the
  text when it could, and the text itself otherwise.
\<close>

datatype addr_spec = AddrInt int | AddrStr string

text \<open>
  Lines 1170-1176: the defaults for the missing elements and the unpacking into
  \<^verbatim>\<open>address, end_address, h_step, v_step\<close>. The split yields one to four
  elements; Python would raise IndexError on none (at \<^verbatim>\<open>elements[0]\<close>) and
  ValueError on more than four (at the unpacking).
\<close>

fun unpack_elements :: "int \<Rightarrow> int list \<Rightarrow> error + (int \<times> int \<times> int \<times> int)" where
  "unpack_elements width [] = Inl IndexError"
| "unpack_elements width [a] = Inr (a, a, 1, 1 * width)"
| "unpack_elements width [a, b] = Inr (a, b, 1, 1 * width)"
| "unpack_elements width [a, b, h] = Inr (a, b, h, h * width)"
| "unpack_elements width [a, b, h, v] = Inr (a, b, h, v)"
| "unpack_elements width (a # b # h # v # z # zs) = Inl ValueError"

text \<open>
  The loop of lines 1178-1183. It need not end (a step of 0 keeps the address below
  the end address for ever), so the function is partial: \<open>None\<close> is the loop that
  does not return. The test \<^verbatim>\<open>len(addresses) % width\<close> raises ZeroDivisionError for a
  width of 0.
\<close>

partial_function (option) addr_loop ::
  "int \<Rightarrow> int \<Rightarrow> int \<Rightarrow> int \<Rightarrow> int \<Rightarrow> int list \<Rightarrow> (error + int list) option" where
  "addr_loop address end_address h_step v_step width addresses =
     (if address \<le> end_address
      then (if width = 0 then Some (Inl ZeroDivisionError)
            else if int (length (addresses @ [address])) mod width \<noteq> 0
            then addr_loop (address + h_step) end_address h_step v_step width
                   (addresses @ [address])
            else addr_loop (address + (v_step - (width - 1) * h_step)) end_address h_step v_step
                   width (addresses @ [address]))
      else Some (Inr addresses))"

text \<open>
  Lines 1158-1165: the repeat count after an \<^verbatim>\<open>x\<close>. The result is the text before
  the first \<^verbatim>\<open>x\<close> and the count.
\<close>

definition invalid_spec :: "string \<Rightarrow> error" where
  "invalid_spec addr_spec = MacroParsingError (''Invalid address range specification: '' @ addr_spec)"

definition split_count :: "string \<Rightarrow> error + (string \<times> int)" where
  "split_count addr_spec =
     (if CHR ''x'' \<in> set addr_spec
      then (case get_int_param (drop 1 (dropWhile (\<lambda>c. c \<noteq> CHR ''x'') addr_spec)) of
              Inl e \<Rightarrow> Inl (invalid_spec addr_spec)
            | Inr num \<Rightarrow> Inr (takeWhile (\<lambda>c. c \<noteq> CHR ''x'') addr_spec, num))
      else Inr (addr_spec, 1))"

text \<open>\<^verbatim>\<open>_get_udg_addresses(addr_spec, width)\<close>, lines 1155-1184.\<close>

definition get_udg_addresses :: "addr_spec \<Rightarrow> int \<Rightarrow> (error + int list) option" where
  "get_udg_addresses addr_spec width =
     (case addr_spec of
        AddrInt a \<Rightarrow> Some (Inr [a])
      | AddrStr s \<Rightarrow>
          (case split_count s of
             Inl e \<Rightarrow> Some (Inl e)
           | Inr (addr, num) \<Rightarrow>
               (case collect get_int_param (split_max (CHR ''-'') 3 addr) of
                  Inl e \<Rightarrow> Some (Inl (invalid_spec s))
                | Inr elements \<Rightarrow>
                    (case unpack_elements width elements of
                       Inl e \<Rightarrow> Some (Inl e)
                     | Inr (address, end_address, h_step, v_step) \<Rightarrow>
                         (case addr_loop address end_address h_step v_step width [] of
                            None \<Rightarrow> None
                          | Some (Inl e) \<Rightarrow> Some (Inl e)
                          | Some (Inr addresses) \<Rightarrow>
                              Some (Inr (concat (replicate (nat num) addresses))))))))"

section \<open>Screenshots: \<^verbatim>\<open>HtmlWriter.screenshot\<close>\<close>

text \<open>
  A bound of a slice \<^verbatim>\<open>xs[start:stop:step]\<close> with a positive step: a negative bound
  counts from the end, and every bound is clamped to \<open>0..len(xs)\<close>.
\<close>

definition slice_bound :: "nat \<Rightarrow> int \<Rightarrow> nat" where
  "slice_bound n i = (if i < 0 then nat (max 0 (int n + i)) else min (nat i) n)"

text \<open>The first item of a list and every \<open>step\<close>-th item after it.\<close>

fun every :: "nat \<Rightarrow> 'a list \<Rightarrow> 'a list" where
  "every step [] = []"
| "every step (x # xs) = x # every step (drop (step - 1) xs)"

text \<open>The slice \<^verbatim>\<open>xs[start:stop:step]\<close> for a positive \<open>step\<close>; it never raises.\<close>

definition py_slice :: "'a list \<Rightarrow> int \<Rightarrow> int \<Rightarrow> nat \<Rightarrow> 'a list" where
  "py_slice xs start stop step =
     every step
       (take (slice_bound (length xs) stop - slice_bound (length xs) start)
          (drop (slice_bound (length xs) start) xs))"

text \<open>
  \<^verbatim>\<open>_get_screen_udg(row, col, df_addr, af_addr)\<close>, lines 422-425, on the contents
  \<open>snap\<close> of the current snapshot. The attribute is read by index, which may raise;
  the data is a slice with step 256.
\<close>

definition get_screen_udg :: "int list \<Rightarrow> int \<Rightarrow> int \<Rightarrow> int \<Rightarrow> int \<Rightarrow> error + udg" where
  "get_screen_udg snap row col df_addr af_addr =
     (case py_get snap (af_addr + 32 * row + col) of
        Inl e \<Rightarrow> Inl e
      | Inr attr \<Rightarrow>
          Inr \<lparr>udg_attr = attr,
               udg_data =
                 py_slice snap
                   (df_addr + 2048 * (row div 8) + 32 * (row mod 8) + col)
                   (df_addr + 2048 * (row div 8) + 32 * (row mod 8) + col + 2048)
                   256,
               udg_mask = None\<rparr>)"

text \<open>
  \<^verbatim>\<open>screenshot(x, y, w, h, df_addr, af_addr)\<close>, lines 427-444. \<^verbatim>\<open>range(y, y + height)\<close>
  is the list of the integers from \<open>y\<close> to \<open>y + height - 1\<close>, empty when \<open>height\<close>
  is not positive.
\<close>

definition screenshot ::
  "int list \<Rightarrow> int \<Rightarrow> int \<Rightarrow> int \<Rightarrow> int \<Rightarrow> int \<Rightarrow> int \<Rightarrow> error + udg list list" where
  "screenshot snap x y w h df_addr af_addr =
     collect
       (\<lambda>r. collect (\<lambda>c. get_screen_udg snap r c df_addr af_addr) [x..x + min w (32 - x) - 1])
       [y..y + min h (24 - y) - 1]"

section \<open>Image files: paths, the need for an image, the encoder\<close>

text \<open>
  The part of an HtmlWriter that the image macros use, on top of the snapshot stack:
  the cache \<^verbatim>\<open>self.frames\<close> of named frames, the dictionary \<^verbatim>\<open>self.paths\<close>, the
  default image format, and of the \<^verbatim>\<open>FileInfo\<close> object the flag
  \<^verbatim>\<open>replace_images\<close> and the files that exist below the output directory. The
  image encoder (\<^verbatim>\<open>self.image_writer\<close>, of the module \<^verbatim>\<open>image\<close>) is a collaborator:
  \<open>encoded\<close> is the log of the calls of its \<^verbatim>\<open>write_image(frames, f, format)\<close>, each
  with the path of the file it writes to.
\<close>

record html_writer = writer +
  frames :: "string \<rightharpoonup> frame"
  paths :: "string \<rightharpoonup> string"
  default_image_format :: string
  replace_images :: bool
  files :: "string set"
  encoded :: "(string \<times> frame list \<times> string) list"

text \<open>\<^verbatim>\<open>str.lower()\<close> on ASCII text, and the slice \<^verbatim>\<open>s[-4:]\<close>.\<close>

definition lower_char :: "char \<Rightarrow> char" where
  "lower_char c =
     (if 65 \<le> (of_char c :: nat) \<and> (of_char c :: nat) \<le> 90
      then char_of (of_char c + 32 :: nat) else c)"

definition lower :: "string \<Rightarrow> string" where
  "lower s = map lower_char s"

definition last4 :: "string \<Rightarrow> string" where
  "last4 s = drop (length s - 4) s"

text \<open>
  The module function \<^verbatim>\<open>join(*path_components)\<close> (lines 83-84): the components
  that hold something other than slashes, with a slash between them.
\<close>

fun join_slash :: "string list \<Rightarrow> string" where
  "join_slash [] = []"
| "join_slash [c] = c"
| "join_slash (c # d # cs) = c @ CHR ''/'' # join_slash (d # cs)"

definition join :: "string list \<Rightarrow> string" where
  "join path_components =
     join_slash (filter (\<lambda>c. filter (\<lambda>ch. ch \<noteq> CHR ''/'') c \<noteq> []) path_components)"

text \<open>
  \<^verbatim>\<open>image_path(fname, path_id)\<close>, lines 1201-1222: \<^verbatim>\<open>None\<close> for a blank name.
\<close>

definition unknown_path_id :: "string \<Rightarrow> string \<Rightarrow> error" where
  "unknown_path_id path_id fname =
     SkoolKitError (''Unknown path ID '' @ [CHR 0x27] @ path_id @ [CHR 0x27]
                    @ '' for image file '' @ [CHR 0x27] @ fname @ [CHR 0x27])"

definition image_suffix :: "'a html_writer_scheme \<Rightarrow> string \<Rightarrow> string" where
  "image_suffix w fname =
     (if lower (last4 fname) = ''.png'' \<or> lower (last4 fname) = ''.gif'' then []
      else CHR ''.'' # default_image_format w)"

definition image_path :: "'a html_writer_scheme \<Rightarrow> string \<Rightarrow> string \<Rightarrow> error + string option" where
  "image_path w fname path_id =
     (if fname = [] then Inr None
      else if hd fname = CHR ''/'' then Inr (Some (tl fname @ image_suffix w fname))
      else (case paths w path_id of
              Some dir \<Rightarrow> Inr (Some (join [dir, fname @ image_suffix w fname]))
            | None \<Rightarrow> Inl (unknown_path_id path_id fname)))"

text \<open>
  \<^verbatim>\<open>FileInfo.need_image\<close> (lines 1564-1565), to which \<^verbatim>\<open>HtmlWriter.need_image\<close>
  delegates: \<^verbatim>\<open>self.replace_images or not self.file_exists(image_path)\<close>.
\<close>

definition file_exists :: "'a html_writer_scheme \<Rightarrow> string \<Rightarrow> bool" where
  "file_exists w fname = (fname \<in> files w)"

definition need_image :: "'a html_writer_scheme \<Rightarrow> string \<Rightarrow> bool" where
  "need_image w img_path = (replace_images w \<or> \<not> file_exists w img_path)"

text \<open>\<^verbatim>\<open>_get_image_format(image_path)\<close>, lines 1054-1060.\<close>

definition get_image_format :: "string \<Rightarrow> error + string" where
  "get_image_format img_path =
     (if last4 (lower img_path) = ''.png'' then Inr ''png''
      else if last4 (lower img_path) = ''.gif'' then Inr ''gif''
      else Inl (SkoolKitError (''Unsupported image file format: '' @ img_path)))"

text \<open>
  \<^verbatim>\<open>write_animated_image(image_path, frames)\<close>, lines 1082-1095: the format, the file
  opened for writing (so it exists from then on), and the one call of the encoder.
\<close>

definition write_animated_image ::
  "'a html_writer_scheme \<Rightarrow> string \<Rightarrow> frame list \<Rightarrow> error + 'a html_writer_scheme" where
  "write_animated_image w img_path frs =
     (case get_image_format img_path of
        Inl e \<Rightarrow> Inl e
      | Inr img_format \<Rightarrow>
          Inr (w\<lparr>files := insert img_path (files w),
                 encoded := encoded w @ [(img_path, frs, img_format)]\<rparr>))"

text \<open>
  \<^verbatim>\<open>write_image(image_path, udgs, crop_rect, scale, mask)\<close>, lines 1062-1080: one frame
  with the default delay of 32.
\<close>

type_synonym crop_rect = "int \<times> int \<times> int option \<times> int option"

definition write_image ::
  "'a html_writer_scheme \<Rightarrow> string \<Rightarrow> udg list list \<Rightarrow> crop_rect \<Rightarrow> int \<Rightarrow> mask_arg
     \<Rightarrow> error + 'a html_writer_scheme" where
  "write_image w img_path udgs crop scale msk =
     (case crop of (x, y, width, height) \<Rightarrow>
        (case Frame udgs scale msk x y width height 32 of
           Inl e \<Rightarrow> Inl e
         | Inr fr \<Rightarrow> write_animated_image w img_path [fr]))"

text \<open>
  The markup that a macro returns: the \<^verbatim>\<open>img\<close> element for an image path (built by
  the template renderer, a collaborator), or the empty string.
\<close>

datatype markup = Img string | Empty

section \<open>Grids of tiles: \<^verbatim>\<open>flip_udgs\<close> and \<^verbatim>\<open>rotate_udgs\<close>\<close>

text \<open>
  \<^verbatim>\<open>flip_udgs(udgs, flip)\<close>, lines 446-461: every tile is flipped, then the rows are
  reversed for a horizontal flip, and the order of the rows for a vertical one.
\<close>

definition flip_udgs :: "udg list list \<Rightarrow> int \<Rightarrow> error + udg list list" where
  "flip_udgs udgs f =
     (case collect (collect (flip f)) udgs of
        Inl e \<Rightarrow> Inl e
      | Inr us \<Rightarrow>
          Inr ((if f AND 2 \<noteq> 0 then rev else id) ((if f AND 1 \<noteq> 0 then map rev else id) us)))"

text \<open>The tiles \<^verbatim>\<open>udgs[j][i]\<close> for \<open>j\<close> in \<^verbatim>\<open>range(len(udgs))\<close>; a short row raises.\<close>

definition column :: "udg list list \<Rightarrow> nat \<Rightarrow> error + udg list" where
  "column udgs i = collect (\<lambda>row. py_get row (int i)) udgs"

text \<open>
  \<^verbatim>\<open>rotate_udgs(udgs, rotate)\<close>, lines 463-490. For one rotation the new row \<open>i\<close> is
  the column \<open>i\<close> from the last row up (each tile is inserted at the front); for three,
  the columns are taken top down and each new row is inserted at the front.
\<close>

definition rotate_udgs :: "udg list list \<Rightarrow> int \<Rightarrow> error + udg list list" where
  "rotate_udgs udgs r =
     (let us = map (map (rotate_udg r)) udgs
      in if r AND 3 = 1
         then (case us of
                 [] \<Rightarrow> Inl IndexError
               | row0 # _ \<Rightarrow>
                   collect (\<lambda>i. case column us i of Inl e \<Rightarrow> Inl e | Inr col \<Rightarrow> Inr (rev col))
                     [0..<length row0])
         else if r AND 3 = 2 then Inr (map rev (rev us))
         else if r AND 3 = 3
         then (case us of
                 [] \<Rightarrow> Inl IndexError
               | row0 # _ \<Rightarrow>
                   (case collect (column us) [0..<length row0] of
                      Inl e \<Rightarrow> Inl e
                    | Inr cols \<Rightarrow> Inr (rev cols)))
         else Inr us)"

section \<open>The tile-grid macro: \<^verbatim>\<open>HtmlWriter.expand_udgarray\<close>\<close>

text \<open>
  The text of the macro is parsed by \<^verbatim>\<open>parse_image_params\<close>, that is by
  \<^verbatim>\<open>skoolmacro.parse_params\<close> and \<^verbatim>\<open>skoolmacro.get_params\<close>, functions of another
  module. The model takes the values that the parsing yields: the
  leading parameters (line 1467), and one record for each source clause that the
  loop of line 1470 finds (line 1471, and line 1475 for a mask part), with the
  defaults already filled in.
\<close>

record udgarray_params =
  p_width :: int
  p_def_attr :: int
  p_scale :: int
  p_def_step :: int
  p_def_inc :: int
  p_flip :: int
  p_rotate :: int
  p_mask_type :: int

record clause =
  c_address :: addr_spec
  c_attr :: int
  c_step :: int
  c_inc :: int
  c_mask :: "(addr_spec \<times> int) option"

text \<open>
  Line 1480: \<^verbatim>\<open>[(self.snapshot[u + n * step] + inc) % 256 for n in range(8)]\<close>, and
  line 1483: \<^verbatim>\<open>[self.snapshot[m + n * mask_step] for n in range(8)]\<close>.
\<close>

definition udg_bytes :: "int list \<Rightarrow> int \<Rightarrow> int \<Rightarrow> int \<Rightarrow> error + int list" where
  "udg_bytes snap u step inc =
     collect (\<lambda>n. case py_get snap (u + n * step) of
                     Inl e \<Rightarrow> Inl e
                   | Inr b \<Rightarrow> Inr ((b + inc) mod 256)) [0..7]"

definition mask_bytes :: "int list \<Rightarrow> int \<Rightarrow> int \<Rightarrow> error + int list" where
  "mask_bytes snap m mask_step = collect (\<lambda>n. py_get snap (m + n * mask_step)) [0..7]"

text \<open>
  Lines 1484-1487: the tile goes to a new row when the last row holds \<open>width\<close> tiles,
  and to the last row otherwise. The array starts as \<^verbatim>\<open>[[]]\<close> and is never empty.
\<close>

definition append_udg :: "int \<Rightarrow> udg \<Rightarrow> udg list list \<Rightarrow> udg list list" where
  "append_udg width u udg_array =
     (if int (length (last udg_array)) = width then udg_array @ [[u]]
      else butlast udg_array @ [last udg_array @ [u]])"

text \<open>
  Line 1478: the mask addresses are filled up with \<^verbatim>\<open>None\<close> to the number of tile
  addresses; \<^verbatim>\<open>zip\<close> then drops what either list has in excess.
\<close>

definition pad_masks :: "int list \<Rightarrow> int list \<Rightarrow> int option list" where
  "pad_masks udg_addresses mask_addresses =
     map Some mask_addresses @ replicate (length udg_addresses - length mask_addresses) None"

text \<open>The loop of lines 1479-1487 over the pairs of a tile address and a mask address.\<close>

fun tiles_loop ::
  "int list \<Rightarrow> int \<Rightarrow> int \<Rightarrow> int \<Rightarrow> int \<Rightarrow> int \<Rightarrow> (int \<times> int option) list \<Rightarrow> udg list list
     \<Rightarrow> error + udg list list" where
  "tiles_loop snap width attr step inc mask_step [] udg_array = Inr udg_array"
| "tiles_loop snap width attr step inc mask_step ((u, m) # rest) udg_array =
     (case udg_bytes snap u step inc of
        Inl e \<Rightarrow> Inl e
      | Inr bytes \<Rightarrow>
          (case m of
             None \<Rightarrow>
               tiles_loop snap width attr step inc mask_step rest
                 (append_udg width \<lparr>udg_attr = attr, udg_data = bytes, udg_mask = None\<rparr> udg_array)
           | Some ma \<Rightarrow>
               (case mask_bytes snap ma mask_step of
                  Inl e \<Rightarrow> Inl e
                | Inr mbytes \<Rightarrow>
                    tiles_loop snap width attr step inc mask_step rest
                      (append_udg width \<lparr>udg_attr = attr, udg_data = bytes, udg_mask = Some mbytes\<rparr>
                         udg_array))))"

text \<open>
  The mask addresses of a clause (lines 1473-1476): none without a mask part. The
  expansion of an address range may not return.
\<close>

definition clause_mask_addresses :: "clause \<Rightarrow> int \<Rightarrow> (error + int list) option" where
  "clause_mask_addresses c width =
     (case c_mask c of
        None \<Rightarrow> Some (Inr [])
      | Some (mask_addr, mask_step) \<Rightarrow> get_udg_addresses mask_addr width)"

definition clause_mask_step :: "clause \<Rightarrow> int" where
  "clause_mask_step c = (case c_mask c of None \<Rightarrow> c_step c | Some (mask_addr, mask_step) \<Rightarrow> mask_step)"

text \<open>
  One pass of the body of the loop of line 1470: the array with the tiles of the
  clause appended, and the value that the pass gives to \<^verbatim>\<open>has_masks\<close> (line 1477).
\<close>

definition clause_step ::
  "int list \<Rightarrow> int \<Rightarrow> clause \<Rightarrow> udg list list \<Rightarrow> (error + udg list list \<times> bool) option" where
  "clause_step snap width c udg_array =
     (case get_udg_addresses (c_address c) width of
        None \<Rightarrow> None
      | Some (Inl e) \<Rightarrow> Some (Inl e)
      | Some (Inr udg_addresses) \<Rightarrow>
          (case clause_mask_addresses c width of
             None \<Rightarrow> None
           | Some (Inl e) \<Rightarrow> Some (Inl e)
           | Some (Inr mask_addresses) \<Rightarrow>
               (case tiles_loop snap width (c_attr c) (c_step c) (c_inc c) (clause_mask_step c)
                       (zip udg_addresses (pad_masks udg_addresses mask_addresses)) udg_array of
                  Inl e \<Rightarrow> Some (Inl e)
                | Inr udg_array' \<Rightarrow> Some (Inr (udg_array', length mask_addresses > 0)))))"

fun clauses_loop ::
  "int list \<Rightarrow> int \<Rightarrow> clause list \<Rightarrow> udg list list \<Rightarrow> bool
     \<Rightarrow> (error + udg list list \<times> bool) option" where
  "clauses_loop snap width [] udg_array has_masks = Some (Inr (udg_array, has_masks))"
| "clauses_loop snap width (c # cs) udg_array has_masks =
     (case clause_step snap width c udg_array of
        None \<Rightarrow> None
      | Some (Inl e) \<Rightarrow> Some (Inl e)
      | Some (Inr (udg_array', has_masks')) \<Rightarrow> clauses_loop snap width cs udg_array' has_masks')"

text \<open>Lines 1488-1489: \<^verbatim>\<open>if not has_masks: mask_type = 0\<close>.\<close>

definition effective_mask_type :: "bool \<Rightarrow> int \<Rightarrow> int" where
  "effective_mask_type has_masks mask_type = (if \<not> has_masks then 0 else mask_type)"

text \<open>\<^verbatim>\<open>fname.partition('*')\<close>: the text before the first star, the star, the text after.\<close>

definition partition_star :: "string \<Rightarrow> string \<times> string \<times> string" where
  "partition_star s =
     (if CHR ''*'' \<in> set s
      then (takeWhile (\<lambda>c. c \<noteq> CHR ''*'') s, ''*'', drop 1 (dropWhile (\<lambda>c. c \<noteq> CHR ''*'') s))
      else (s, [], []))"

text \<open>Lines 1503-1506: the grid is flipped and rotated when the parameters are not 0.\<close>

definition transform_udgs :: "udg list list \<Rightarrow> int \<Rightarrow> int \<Rightarrow> error + udg list list" where
  "transform_udgs udg_array f r =
     (case (if f \<noteq> 0 then flip_udgs udg_array f else Inr udg_array) of
        Inl e \<Rightarrow> Inl e
      | Inr us \<Rightarrow> (if r \<noteq> 0 then rotate_udgs us r else Inr us))"

text \<open>Lines 1507-1508: the frame is stored under its identifier.\<close>

definition store_frame ::
  "'a html_writer_scheme \<Rightarrow> string \<Rightarrow> udg list list \<Rightarrow> int \<Rightarrow> int \<Rightarrow> crop_rect
     \<Rightarrow> error + 'a html_writer_scheme" where
  "store_frame w frame_id udg_array scale mask_type crop =
     (if frame_id = [] then Inr w
      else (case crop of (x, y, width, height) \<Rightarrow>
              (case Frame udg_array scale (MaskInt mask_type) x y width height 32 of
                 Inl e \<Rightarrow> Inl e
               | Inr fr \<Rightarrow> Inr (w\<lparr>frames := (frames w)(frame_id \<mapsto> fr)\<rparr>))))"

text \<open>
  Lines 1500-1513, for the file name and the frame identifier that lines 1494-1498
  leave: the image path, the need for the image (\<open>need\<close> is the path when
  \<^verbatim>\<open>img_path and self.need_image(img_path)\<close> holds), the work under
  \<^verbatim>\<open>if frame or need_image\<close>, and the markup returned.
\<close>

definition render_udgarray ::
  "'a html_writer_scheme \<Rightarrow> udgarray_params \<Rightarrow> crop_rect \<Rightarrow> string \<Rightarrow> string \<Rightarrow> udg list list
     \<Rightarrow> int \<Rightarrow> error + 'a html_writer_scheme \<times> markup" where
  "render_udgarray w p crop fname frame_id udg_array mask_type =
     (case image_path w fname ''UDGImagePath'' of
        Inl e \<Rightarrow> Inl e
      | Inr img_path \<Rightarrow>
          (let need = (case img_path of
                         None \<Rightarrow> None
                       | Some ip \<Rightarrow> if ip \<noteq> [] \<and> need_image w ip then Some ip else None);
               out = (case img_path of
                        None \<Rightarrow> Empty
                      | Some ip \<Rightarrow> if ip \<noteq> [] then Img ip else Empty)
           in if frame_id \<noteq> [] \<or> need \<noteq> None
              then (case transform_udgs udg_array (p_flip p) (p_rotate p) of
                      Inl e \<Rightarrow> Inl e
                    | Inr us \<Rightarrow>
                        (case store_frame w frame_id us (p_scale p) mask_type crop of
                           Inl e \<Rightarrow> Inl e
                         | Inr w1 \<Rightarrow>
                             (case need of
                                None \<Rightarrow> Inr (w1, out)
                              | Some ip \<Rightarrow>
                                  (case write_image w1 ip us crop (p_scale p) (MaskInt mask_type) of
                                     Inl e \<Rightarrow> Inl e
                                   | Inr w2 \<Rightarrow> Inr (w2, out)))))
              else Inr (w, out)))"

text \<open>
  Lines 1491-1498: the file name that the parsing left must not be blank; it is split
  at the first star into the name of the image and the identifier of the frame, the
  name standing for the identifier when nothing follows the star. \<open>src\<close> is the text
  of the parameters, \<^verbatim>\<open>text[index:end]\<close>, which the messages quote.
\<close>

definition finish_udgarray ::
  "'a html_writer_scheme \<Rightarrow> udgarray_params \<Rightarrow> crop_rect \<Rightarrow> string \<Rightarrow> string \<Rightarrow> udg list list
     \<Rightarrow> bool \<Rightarrow> error + 'a html_writer_scheme \<times> markup" where
  "finish_udgarray w p crop fname src udg_array has_masks =
     (if fname = [] then Inl (MacroParsingError (''Missing filename: #UDGARRAY'' @ src))
      else (case partition_star fname of
              (name, sep, frame0) \<Rightarrow>
                (let frame_id = (if sep \<noteq> [] \<and> frame0 = [] then name else frame0)
                 in if name = [] \<and> frame_id = []
                    then Inl (MacroParsingError (''Missing filename or frame ID: #UDGARRAY'' @ src))
                    else render_udgarray w p crop name frame_id udg_array
                           (effective_mask_type has_masks (p_mask_type p)))))"

text \<open>
  \<^verbatim>\<open>expand_udgarray\<close> in its direct-source form, lines 1466-1513: \<open>clauses\<close> are the
  source clauses in the order of the text, \<open>crop\<close> and \<open>fname\<close> the crop rectangle and
  the file name that the last parse leaves. \<open>None\<close> is the call that does not return.
\<close>

definition expand_udgarray ::
  "'a html_writer_scheme \<Rightarrow> udgarray_params \<Rightarrow> clause list \<Rightarrow> crop_rect \<Rightarrow> string \<Rightarrow> string
     \<Rightarrow> (error + 'a html_writer_scheme \<times> markup) option" where
  "expand_udgarray w p clauses crop fname src =
     (case clauses_loop (current w) (p_width p) clauses [[]] False of
        None \<Rightarrow> None
      | Some (Inl e) \<Rightarrow> Some (Inl e)
      | Some (Inr (udg_array, has_masks)) \<Rightarrow>
          Some (finish_udgarray w p crop fname src udg_array has_masks))"

section \<open>An example writer and an example macro\<close>

text \<open>
  A writer over a snapshot of sixteen bytes, with the path of the tile images
  configured, no frames cached and no encoder calls so far; the flag
  \<^verbatim>\<open>replace_images\<close> and the existing files are left open.
\<close>

definition demo_writer :: "bool \<Rightarrow> string set \<Rightarrow> html_writer" where
  "demo_writer replace existing =
     \<lparr>heap = [[1, 2, 3, 4, 5, 6, 7, 8, 9, 10, 11, 12, 13, 14, 15, 16]],
      snapshot = 0,
      snapshots = [(0, [])],
      frames = Map.empty,
      paths = [''UDGImagePath'' \<mapsto> ''images/udgs''],
      default_image_format = ''png'',
      replace_images = replace,
      files = existing,
      encoded = []\<rparr>"

text \<open>
  The macro \<^verbatim>\<open>#UDGARRAY2,56,2,1,0,0,0,1;0:8;8(tile)\<close>: rows of two tiles, mask type 1,
  a first clause with the tile at address 0 and its mask at address 8, and a second
  clause with the tile at address 8 and no mask.
\<close>

definition demo_params :: udgarray_params where
  "demo_params =
     \<lparr>p_width = 2, p_def_attr = 56, p_scale = 2, p_def_step = 1, p_def_inc = 0,
      p_flip = 0, p_rotate = 0, p_mask_type = 1\<rparr>"

definition demo_masked :: clause where
  "demo_masked =
     \<lparr>c_address = AddrInt 0, c_attr = 56, c_step = 1, c_inc = 0, c_mask = Some (AddrInt 8, 1)\<rparr>"

definition demo_plain :: clause where
  "demo_plain =
     \<lparr>c_address = AddrInt 8, c_attr = 56, c_step = 1, c_inc = 0, c_mask = None\<rparr>"

definition demo_grid :: "udg list list" where
  "demo_grid =
     [[\<lparr>udg_attr = 56, udg_data = [1, 2, 3, 4, 5, 6, 7, 8],
        udg_mask = Some [9, 10, 11, 12, 13, 14, 15, 16]\<rparr>,
       \<lparr>udg_attr = 56, udg_data = [9, 10, 11, 12, 13, 14, 15, 16], udg_mask = None\<rparr>]]"

definition demo_frame :: frame where
  "demo_frame =
     \<lparr>frame_udgs = demo_grid, frame_scale = 2, frame_mask = 0, frame_x = 0, frame_y = 0,
      frame_full_width = 32, frame_full_height = 16, frame_width = 32, frame_height = 16,
      frame_delay = 32, frame_trans = 0\<rparr>"

text \<open>The example writer with the example frame cached under the identifier \<^verbatim>\<open>a\<close>.\<close>

definition demo_animator :: "string set \<Rightarrow> html_writer" where
  "demo_animator existing = (demo_writer False existing)\<lparr>frames := [''a'' \<mapsto> demo_frame]\<rparr>"

text \<open>
  The grid and the frame of the macro \<^verbatim>\<open>#UDGARRAY2,56,2,1,0,0,0,1;8;0:8(tile)\<close>, which
  has the two clauses in the other order: the clause with the mask is the last one.
\<close>

definition demo_grid_rev :: "udg list list" where
  "demo_grid_rev =
     [[\<lparr>udg_attr = 56, udg_data = [9, 10, 11, 12, 13, 14, 15, 16], udg_mask = None\<rparr>,
       \<lparr>udg_attr = 56, udg_data = [1, 2, 3, 4, 5, 6, 7, 8],
        udg_mask = Some [9, 10, 11, 12, 13, 14, 15, 16]\<rparr>]]"

definition demo_frame_rev :: frame where
  "demo_frame_rev =
     \<lparr>frame_udgs = demo_grid_rev, frame_scale = 2, frame_mask = 1, frame_x = 0, frame_y = 0,
      frame_full_width = 32, frame_full_height = 16, frame_width = 32, frame_height = 16,
      frame_delay = 32, frame_trans = 0\<rparr>"


section \<open>The frame-composition form: \<^verbatim>\<open>_expand_udgarray_with_frames\<close>\<close>

text \<open>\<^verbatim>\<open>s.split(sep)\<close> for a separator of one character: all the pieces.\<close>

fun split_all :: "char \<Rightarrow> string \<Rightarrow> string list" where
  "split_all sep [] = [[]]"
| "split_all sep (c # cs) =
     (if c = sep then [] # split_all sep cs
      else (case split_all sep cs of
              [] \<Rightarrow> [[c]]
            | piece # pieces \<Rightarrow> (c # piece) # pieces))"

text \<open>\<^verbatim>\<open>s.rsplit(sep, 1)\<close>: one split, at the last separator.\<close>

definition rsplit1 :: "char \<Rightarrow> string \<Rightarrow> string list" where
  "rsplit1 sep s =
     (if sep \<in> set s
      then [rev (drop 1 (dropWhile (\<lambda>c. c \<noteq> sep) (rev s))), rev (takeWhile (\<lambda>c. c \<noteq> sep) (rev s))]
      else [s])"

text \<open>
  Lines 1439-1448, for one item of the list of frames: the frame identifier, the delay
  of the frame and the default delay from there on.
\<close>

definition invalid_delay :: "string \<Rightarrow> error" where
  "invalid_delay d = MacroParsingError (''Invalid delay parameter: '' @ [CHR 0x22] @ d @ [CHR 0x22])"

definition frame_clause :: "string \<Rightarrow> int \<Rightarrow> error + string \<times> int \<times> int" where
  "frame_clause frame_param default_delay =
     (case rsplit1 (CHR '','') frame_param of
        [frame_id, d] \<Rightarrow>
          (case parse_int d of
             None \<Rightarrow> Inl (invalid_delay d)
           | Some delay \<Rightarrow> Inr (frame_id, delay, delay))
      | _ \<Rightarrow> Inr (frame_param, default_delay, default_delay))"

definition missing_frame_id :: "string \<Rightarrow> error" where
  "missing_frame_id src = MacroParsingError (''Missing frame ID: #UDGARRAY'' @ src)"

definition no_such_frame :: "string \<Rightarrow> error" where
  "no_such_frame frame_id = MacroParsingError (''No such frame: '' @ [CHR 0x22] @ frame_id @ [CHR 0x22])"

text \<open>
  The loop of lines 1438-1456. A Frame is an object: \<^verbatim>\<open>frame.delay = delay\<close> changes the
  frame in the cache, and the list \<^verbatim>\<open>frames\<close> holds the same objects, so that an
  identifier listed twice has one delay, the later one. The cache \<open>fs\<close> is the store
  of these objects, and the list holds their identifiers.
\<close>

fun frames_loop ::
  "string \<Rightarrow> string list \<Rightarrow> (string \<rightharpoonup> frame) \<Rightarrow> int \<Rightarrow> string list
     \<Rightarrow> error + (string \<rightharpoonup> frame) \<times> string list" where
  "frames_loop src [] fs default_delay ids = Inr (fs, ids)"
| "frames_loop src (frame_param # rest) fs default_delay ids =
     (case frame_clause frame_param default_delay of
        Inl e \<Rightarrow> Inl e
      | Inr (frame_id, delay, default_delay') \<Rightarrow>
          if frame_id = [] then Inl (missing_frame_id src)
          else (case fs frame_id of
                  None \<Rightarrow> Inl (no_such_frame frame_id)
                | Some fr \<Rightarrow>
                    frames_loop src rest (fs(frame_id \<mapsto> fr\<lparr>frame_delay := delay\<rparr>))
                      default_delay' (ids @ [frame_id])))"

text \<open>
  \<^verbatim>\<open>_expand_udgarray_with_frames\<close>, lines 1430-1458, for the parameter text
  \<open>frame_params\<close> (it starts with the star) and the file name \<open>fname\<close> that
  \<^verbatim>\<open>skoolmacro.parse_params\<close> yields; \<open>src\<close> is \<^verbatim>\<open>text[index:end]\<close>. The image path of a
  name that is not blank is never \<^verbatim>\<open>None\<close>; Python would raise AttributeError on it.
\<close>

definition expand_udgarray_with_frames ::
  "'a html_writer_scheme \<Rightarrow> string \<Rightarrow> string \<Rightarrow> string \<Rightarrow> error + 'a html_writer_scheme \<times> markup" where
  "expand_udgarray_with_frames w frame_params fname src =
     (if fname = [] then Inl (MacroParsingError (''Missing filename: #UDGARRAY'' @ src))
      else (case image_path w fname ''UDGImagePath'' of
              Inl e \<Rightarrow> Inl e
            | Inr None \<Rightarrow> Inl AttributeError
            | Inr (Some img_path) \<Rightarrow>
                if need_image w img_path
                then (case frames_loop src (split_all (CHR '';'') (drop 1 frame_params))
                             (frames w) 32 [] of
                        Inl e \<Rightarrow> Inl e
                      | Inr (fs, ids) \<Rightarrow>
                          (case write_animated_image (w\<lparr>frames := fs\<rparr>) img_path
                                  (List.map_filter fs ids) of
                             Inl e \<Rightarrow> Inl e
                           | Inr w' \<Rightarrow> Inr (w', Img img_path)))
                else Inr (w, Img img_path)))"

text \<open>
  What an item of the list of frames names, and whether its delay, if it has one, is
  an integer.
\<close>

definition frame_id_of :: "string \<Rightarrow> string" where
  "frame_id_of frame_param = hd (rsplit1 (CHR '','') frame_param)"

definition delay_ok :: "string \<Rightarrow> bool" where
  "delay_ok frame_param =
     (case rsplit1 (CHR '','') frame_param of
        [frame_id, d] \<Rightarrow> parse_int d \<noteq> None
      | _ \<Rightarrow> True)"

section \<open>Properties of the snapshot stack\<close>

lemma py_set_in_range:
  "- int (length xs) \<le> i \<Longrightarrow> i < int (length xs) \<Longrightarrow>
   \<exists>ys. py_set xs i v = Inr ys \<and> length ys = length xs"
  by (auto simp: py_set_def py_index_def)

text \<open>
  Claim C1, as stated, fails: on the stack that \<^verbatim>\<open>__init__\<close> builds, whose only
  entry is the base snapshot, \<^verbatim>\<open>pop_snapshot\<close> raises nothing and removes the
  base entry, leaving the stack empty.
\<close>

theorem pop_base_only_counterexample:
  "pop_snapshot (init_writer [1, 2, 3]) =
     Inr \<lparr>heap = [[1, 2, 3]], snapshot = 0, snapshots = []\<rparr>"
  by (simp add: pop_snapshot_def init_writer_def)

text \<open>
  Claim C1, amended: \<^verbatim>\<open>pop_snapshot\<close> on a stack whose only entry is the base
  snapshot raises no error; it removes that entry, leaving the stack empty, and
  makes the entry's snapshot the current one. The pop that raises (IndexError,
  with the writer left as it was) is the one on an empty stack.
\<close>

theorem pop_base_only:
  "pop_snapshot (w\<lparr>snapshots := [(s, n)]\<rparr>) = Inr (w\<lparr>snapshot := s, snapshots := []\<rparr>)
   \<and> pop_snapshot (w\<lparr>snapshots := []\<rparr>) = Inl IndexError
   \<and> pop_snapshot (init_writer snap) = Inr ((init_writer snap)\<lparr>snapshots := []\<rparr>)"
  by (simp add: pop_snapshot_def init_writer_def)

text \<open>
  Claim C7: after \<^verbatim>\<open>push_snapshot(name)\<close>, a write of \<open>v\<close> at an address \<open>addr\<close>
  of the current snapshot, and \<^verbatim>\<open>pop_snapshot()\<close>, the three calls have all
  returned, and the current snapshot holds at \<open>addr\<close> (indeed everywhere) what it held
  before the push; the stack is the one before the push.
\<close>

theorem push_poke_pop_restores:
  assumes wf: "snapshot w < length (heap w)"
    and lo: "- int (length (current w)) \<le> addr"
    and hi: "addr < int (length (current w))"
  shows "\<exists>w'. push_poke_pop name addr v w = Inr w'
           \<and> peek w' addr = peek w addr
           \<and> current w' = current w
           \<and> snapshots w' = snapshots w"
proof -
  let ?p = "push_snapshot name w"
  have cur: "heap ?p ! snapshot ?p = current w"
    using wf by (simp add: push_snapshot_def current_def nth_append)
  from py_set_in_range [OF lo hi, of v]
  obtain ys where ys: "py_set (current w) addr v = Inr ys" by blast
  let ?w1 = "?p\<lparr>heap := (heap ?p)[snapshot ?p := ys]\<rparr>"
  have poke: "poke addr v ?p = Inr ?w1"
    using ys cur by (simp add: poke_def)
  have ne: "snapshots ?w1 \<noteq> []"
    by (simp add: push_snapshot_def)
  let ?w2 = "?w1\<lparr>snapshot := fst (last (snapshots ?w1)), snapshots := butlast (snapshots ?w1)\<rparr>"
  have pop: "pop_snapshot ?w1 = Inr ?w2"
    using ne by (simp add: pop_snapshot_def)
  have run: "push_poke_pop name addr v w = Inr ?w2"
    using poke pop by (simp add: push_poke_pop_def)
  have c: "current ?w2 = current w"
    using wf by (simp add: current_def push_snapshot_def nth_append)
  have s: "snapshots ?w2 = snapshots w"
    by (simp add: push_snapshot_def)
  show ?thesis
    using run c s by (simp add: peek_def)
qed

theorem push_poke_pop_restores_witness:
  "\<exists>w'. push_poke_pop ''a'' 1 99 (init_writer [10, 20, 30]) = Inr w'
       \<and> peek w' 1 = Inr 20
       \<and> current w' = [10, 20, 30]
       \<and> snapshots w' = [(0, '''')]"
  using push_poke_pop_restores [of "init_writer [10, 20, 30]" 1 "''a''" 99]
  by (simp add: init_writer_def current_def peek_def py_get_def py_index_def)

section \<open>Properties of tiles\<close>

lemma FLIP_length: "length FLIP = 256"
  by (simp add: FLIP_def)

lemma FLIP_table:
  "list_all (\<lambda>n. 0 \<le> FLIP ! n \<and> FLIP ! n < 256 \<and> FLIP ! nat (FLIP ! n) = int n) [0..<256]"
  by code_simp

lemma flipb_byte: "is_byte b \<Longrightarrow> is_byte (flipb b) \<and> flipb (flipb b) = b"
proof -
  assume b: "is_byte b"
  then have n: "nat b \<in> set [0..<256]"
    by (auto simp: is_byte_def)
  from FLIP_table
  have "\<forall>n \<in> set [0..<256]. 0 \<le> FLIP ! n \<and> FLIP ! n < 256 \<and> FLIP ! nat (FLIP ! n) = int n"
    by (simp only: list_all_iff)
  with n have "0 \<le> FLIP ! nat b \<and> FLIP ! nat b < 256 \<and> FLIP ! nat (FLIP ! nat b) = int (nat b)"
    by blast
  with b show ?thesis
    by (simp add: is_byte_def flipb_def)
qed

lemma py_get_FLIP: "is_byte b \<Longrightarrow> py_get FLIP b = Inr (flipb b)"
  by (simp add: py_get_def py_index_def FLIP_length is_byte_def flipb_def)

lemma py_get_nth: "i < length xs \<Longrightarrow> py_get xs (int i) = Inr (xs ! i)"
  by (simp add: py_get_def py_index_def)

lemma flip_at_ok:
  "i < length xs \<Longrightarrow> is_byte (xs ! i) \<Longrightarrow> flip_at xs i = Inr (xs[i := flipb (xs ! i)])"
  by (simp add: flip_at_def py_get_nth py_get_FLIP)

lemma upt8: "[0..<8] = [0, 1, 2, 3, 4, 5, 6, 7]"
  by (simp add: upt_rec)

lemma len8: "length xs = 8 \<Longrightarrow> \<exists>a b c d e f g h. xs = [a, b, c, d, e, f, g, h]"
  by (auto simp: length_Suc_conv eval_nat_numeral)

text \<open>The loop of \<^verbatim>\<open>Udg.flip\<close> on a tile without a mask, and on one with a mask.\<close>

lemma flip_loop_data:
  assumes "tile_bytes xs" and "\<not> truthy (udg_mask u)" and "udg_data u = xs"
  shows "flip_loop [0..<8] u = Inr (u\<lparr>udg_data := map flipb xs\<rparr>)"
proof -
  from assms(1) obtain a b c d e f g h where xs: "xs = [a, b, c, d, e, f, g, h]"
    using len8 unfolding tile_bytes_def by blast
  from assms(1) xs
  have bs: "is_byte a" "is_byte b" "is_byte c" "is_byte d"
    "is_byte e" "is_byte f" "is_byte g" "is_byte h"
    by (simp_all add: tile_bytes_def)
  show ?thesis
    using assms(2,3) bs
    by (cases "udg_mask u") (simp_all add: upt8 xs flip_step_def flip_at_ok truthy_def)
qed

lemma flip_loop_mask:
  assumes "tile_bytes xs" and "tile_bytes ms" and "udg_data u = xs" and "udg_mask u = Some ms"
  shows "flip_loop [0..<8] u =
           Inr (u\<lparr>udg_data := map flipb xs, udg_mask := Some (map flipb ms)\<rparr>)"
proof -
  from assms(1) obtain a b c d e f g h where xs: "xs = [a, b, c, d, e, f, g, h]"
    using len8 unfolding tile_bytes_def by blast
  from assms(2) obtain a' b' c' d' e' f' g' h' where ms: "ms = [a', b', c', d', e', f', g', h']"
    using len8 unfolding tile_bytes_def by blast
  from assms(1) xs
  have bs: "is_byte a" "is_byte b" "is_byte c" "is_byte d"
    "is_byte e" "is_byte f" "is_byte g" "is_byte h"
    by (simp_all add: tile_bytes_def)
  from assms(2) ms
  have bm: "is_byte a'" "is_byte b'" "is_byte c'" "is_byte d'"
    "is_byte e'" "is_byte f'" "is_byte g'" "is_byte h'"
    by (simp_all add: tile_bytes_def)
  show ?thesis
    using assms(3,4) bs bm
    by (simp add: upt8 xs ms flip_step_def flip_at_ok)
qed

lemma flip_loop_wf: "wf_udg u \<Longrightarrow> flip_loop [0..<8] u = Inr (flip_bytes u)"
proof (cases "udg_mask u")
  case None
  assume "wf_udg u"
  with None show ?thesis
    using flip_loop_data [of "udg_data u" u]
    by (simp add: wf_udg_def truthy_def flip_bytes_def)
next
  case (Some ms)
  assume "wf_udg u"
  with Some show ?thesis
    using flip_loop_mask [of "udg_data u" ms u]
    by (simp add: wf_udg_def flip_bytes_def)
qed

lemma tile_bytes_map:
  "tile_bytes xs \<Longrightarrow> tile_bytes (map flipb xs) \<and> map flipb (map flipb xs) = xs"
  by (auto simp: tile_bytes_def list_all_iff flipb_byte map_idI)

lemma flipb_twice: "tile_bytes xs \<Longrightarrow> map (flipb \<circ> flipb) xs = xs"
  using tile_bytes_map [of xs] by simp

lemma tile_bytes_rev: "tile_bytes xs \<Longrightarrow> tile_bytes (rev xs)"
  by (simp add: tile_bytes_def list_all_iff)

lemma tile_bytes_truthy: "tile_bytes xs \<Longrightarrow> xs \<noteq> []"
  by (auto simp: tile_bytes_def)

lemma wf_flip_bytes: "wf_udg u \<Longrightarrow> wf_udg (flip_bytes u) \<and> flip_bytes (flip_bytes u) = u"
  by (cases "udg_mask u") (auto simp: wf_udg_def flip_bytes_def tile_bytes_map flipb_twice)

lemma wf_reverse: "wf_udg u \<Longrightarrow> wf_udg (reverse_udg u) \<and> reverse_udg (reverse_udg u) = u"
  by (cases "udg_mask u")
    (auto simp: wf_udg_def reverse_udg_def truthy_def tile_bytes_rev dest: tile_bytes_truthy)

lemma flip_wf:
  "wf_udg u \<Longrightarrow>
   flip f u = Inr ((if f AND 2 \<noteq> 0 then reverse_udg else id)
                    ((if f AND 1 \<noteq> 0 then flip_bytes else id) u))"
  by (simp add: flip_def flip_loop_wf)

lemma rev_flip_commute: "reverse_udg (flip_bytes u) = flip_bytes (reverse_udg u)"
  by (cases "udg_mask u") (auto simp: reverse_udg_def flip_bytes_def truthy_def rev_map)

lemma flip_example:
  "flip 3 \<lparr>udg_attr = 56, udg_data = [1, 2, 3, 4, 5, 6, 7, 8],
           udg_mask = Some [128, 0, 0, 0, 0, 0, 0, 255]\<rparr>
     = Inr \<lparr>udg_attr = 56, udg_data = [16, 224, 96, 160, 32, 192, 64, 128],
            udg_mask = Some [255, 0, 0, 0, 0, 0, 0, 1]\<rparr>"
  by (simp add: flip_def upt8 flip_step_def flip_at_def py_get_def py_index_def FLIP_def
      reverse_udg_def truthy_def)

text \<open>
  Claim C5: for a tile \<open>u\<close> (eight bytes of bitmap, with or without a mask of eight
  bytes) and a flip mode \<open>m\<close> of 1, 2 or 3, \<^verbatim>\<open>flip(m)\<close> returns, and a second
  \<^verbatim>\<open>flip(m)\<close> on its result returns the tile \<open>u\<close>: attribute, bitmap and mask.
\<close>

theorem flip_involution:
  assumes "wf_udg u" and "m = 1 \<or> m = 2 \<or> m = 3"
  shows "\<exists>u'. flip m u = Inr u' \<and> flip m u' = Inr u"
proof -
  let ?u' = "(if m AND 2 \<noteq> 0 then reverse_udg else id)
               ((if m AND 1 \<noteq> 0 then flip_bytes else id) u)"
  have 1: "flip m u = Inr ?u'"
    using assms(1) by (rule flip_wf)
  have wf': "wf_udg ?u'"
    using assms(1) by (simp add: wf_flip_bytes wf_reverse)
  have "flip m ?u' = Inr ((if m AND 2 \<noteq> 0 then reverse_udg else id)
                            ((if m AND 1 \<noteq> 0 then flip_bytes else id) ?u'))"
    using wf' by (rule flip_wf)
  also have "\<dots> = Inr u"
    using assms(1) by (simp add: wf_flip_bytes wf_reverse rev_flip_commute [symmetric])
  finally show ?thesis
    using 1 by blast
qed

theorem flip_involution_witness:
  "wf_udg \<lparr>udg_attr = 56, udg_data = [1, 2, 3, 4, 5, 6, 7, 8],
           udg_mask = Some [128, 0, 0, 0, 0, 0, 0, 255]\<rparr>
   \<and> (\<exists>u'. flip 3 \<lparr>udg_attr = 56, udg_data = [1, 2, 3, 4, 5, 6, 7, 8],
                    udg_mask = Some [128, 0, 0, 0, 0, 0, 0, 255]\<rparr> = Inr u'
          \<and> flip 3 u' = Inr \<lparr>udg_attr = 56, udg_data = [1, 2, 3, 4, 5, 6, 7, 8],
                              udg_mask = Some [128, 0, 0, 0, 0, 0, 0, 255]\<rparr>)"
  using flip_involution [of "\<lparr>udg_attr = 56, udg_data = [1, 2, 3, 4, 5, 6, 7, 8],
                              udg_mask = Some [128, 0, 0, 0, 0, 0, 0, 255]\<rparr>" 3]
  by (simp add: wf_udg_def tile_bytes_def is_byte_def)

lemma rotate_example:
  "rotate_udg 1 \<lparr>udg_attr = 7, udg_data = [255, 128, 128, 128, 0, 0, 0, 0], udg_mask = None\<rparr>
     = \<lparr>udg_attr = 7, udg_data = [15, 1, 1, 1, 1, 1, 1, 1], udg_mask = None\<rparr>"
  by code_simp

text \<open>Four quarter turns of one bitmap, each computed by \<^verbatim>\<open>_rotate_tile\<close>.\<close>

lemma rotate_tile_example:
  "rotate_tile [255, 128, 128, 128, 0, 0, 0, 0] = [15, 1, 1, 1, 1, 1, 1, 1]"
  "rotate_tile [15, 1, 1, 1, 1, 1, 1, 1] = [0, 0, 0, 0, 1, 1, 1, 255]"
  "rotate_tile [0, 0, 0, 0, 1, 1, 1, 255] = [128, 128, 128, 128, 128, 128, 128, 240]"
  "rotate_tile [128, 128, 128, 128, 128, 128, 128, 240] = [255, 128, 128, 128, 0, 0, 0, 0]"
  by code_simp+

text \<open>
  Claim C6: \<^verbatim>\<open>rotate(4)\<close> leaves every tile as it is, and \<^verbatim>\<open>rotate(1)\<close> twice gives
  the tile that \<^verbatim>\<open>rotate(2)\<close> gives: attribute, bitmap and mask (when there is one).
\<close>

theorem rotate_laws:
  "rotate_udg 4 u = u \<and> rotate_udg 1 (rotate_udg 1 u) = rotate_udg 2 u"
  by (simp add: rotate_udg_def numeral_2_eq_2)

section \<open>Properties of frames\<close>

text \<open>
  Claim C4, as stated, fails for a requested width of 0: the claim gives the effective
  width \<open>min 0 (8 - 0) = 0\<close> for one tile at scale 1, and \<^verbatim>\<open>Frame.__init__\<close>
  gives 8, the full width.
\<close>

theorem Frame_width_counterexample:
  "Frame [[\<lparr>udg_attr = 56, udg_data = [0, 0, 0, 0, 0, 0, 0, 0], udg_mask = None\<rparr>]]
       1 (MaskInt 0) 0 0 (Some 0) None 32
     = Inr \<lparr>frame_udgs = [[\<lparr>udg_attr = 56, udg_data = [0, 0, 0, 0, 0, 0, 0, 0], udg_mask = None\<rparr>]],
            frame_scale = 1, frame_mask = 0, frame_x = 0, frame_y = 0,
            frame_full_width = 8, frame_full_height = 8,
            frame_width = 8, frame_height = 8,
            frame_delay = 32, frame_trans = 0\<rparr>
   \<and> min (0::int) (8 - 0) \<noteq> 8"
  by (simp add: Frame_def py_or_def)

text \<open>
  Claim C4, amended: for a Frame built from a grid with a first row of \<open>c\<close> tiles and
  \<open>r \<ge> 1\<close> rows, with scale \<open>s\<close>, crop offset \<open>(x, y)\<close> and requested width and
  height: the full width is \<open>8 * c * s\<close>, the full height is \<open>8 * r * s\<close>, the
  effective width is \<open>min (w, full width - x)\<close> where \<open>w\<close> is the requested width
  when one is given and is not 0, and the full width otherwise, likewise for the
  height, and the frame is cropped if and only if an effective dimension differs from
  the full one.
\<close>

theorem Frame_dimensions:
  "\<exists>f. Frame (row0 # rows) scale msk x y width height delay = Inr f
     \<and> frame_full_width f = 8 * int (length row0) * scale
     \<and> frame_full_height f = 8 * int (length (row0 # rows)) * scale
     \<and> frame_width f = min (py_or width (frame_full_width f)) (frame_full_width f - x)
     \<and> frame_height f = min (py_or height (frame_full_height f)) (frame_full_height f - y)
     \<and> (cropped f \<longleftrightarrow>
          frame_width f \<noteq> frame_full_width f \<or> frame_height f \<noteq> frame_full_height f)
     \<and> py_or None d = d
     \<and> py_or (Some v) d = (if v = 0 then d else v)"
proof -
  have "py_or None d = d" and "py_or (Some v) d = (if v = 0 then d else v)"
    by (simp_all add: py_or_def)
  then show ?thesis
    by (simp add: Frame_def cropped_def)
qed

theorem Frame_dimensions_witness:
  "\<exists>f. Frame [[\<lparr>udg_attr = 56, udg_data = [0, 0, 0, 0, 0, 0, 0, 0], udg_mask = None\<rparr>,
                 \<lparr>udg_attr = 7, udg_data = [1, 2, 3, 4, 5, 6, 7, 8], udg_mask = None\<rparr>]]
         2 (MaskInt 0) 4 0 (Some 0) (Some 10) 32 = Inr f
     \<and> frame_full_width f = 32
     \<and> frame_full_height f = 16
     \<and> frame_width f = 28
     \<and> frame_height f = 10
     \<and> cropped f"
  using Frame_dimensions [of
      "[\<lparr>udg_attr = 56, udg_data = [0, 0, 0, 0, 0, 0, 0, 0], udg_mask = None\<rparr>,
        \<lparr>udg_attr = 7, udg_data = [1, 2, 3, 4, 5, 6, 7, 8], udg_mask = None\<rparr>]"
      "[]" 2 "MaskInt 0" 4 0 "Some 0" "Some 10" 32 0 0]
  by (auto simp: py_or_def)

section \<open>Properties of the address ranges\<close>

lemma get_int_param_examples:
  "get_int_param ''30000'' = Inr 30000"
  "get_int_param ''$7fFF'' = Inr 32767"
  "get_int_param ''12a'' = Inl ValueError"
  "get_int_param [] = Inl ValueError"
  by code_simp+

lemma elements_30000_30002:
  "collect get_int_param (split_max (CHR ''-'') 3 ''30000-30002'') = Inr [30000, 30002]"
  by code_simp

lemma elements_30000_30003_2:
  "collect get_int_param (split_max (CHR ''-'') 3 ''30000-30003-2'') = Inr [30000, 30003, 2]"
  by code_simp

lemma addr_loop_width1:
  "addr_loop 30000 30002 1 1 1 [] = Some (Inr [30000, 30001, 30002])"
  by (simp add: addr_loop.simps)

lemma addr_loop_width2:
  "addr_loop 30000 30003 2 4 2 [] = Some (Inr [30000, 30002])"
  by (simp add: addr_loop.simps)

lemma range_width1:
  "get_udg_addresses (AddrStr ''30000-30002'') 1 = Some (Inr [30000, 30001, 30002])"
  unfolding get_udg_addresses_def
  by (simp add: split_count_def elements_30000_30002 addr_loop_width1)

lemma range_width2:
  "get_udg_addresses (AddrStr ''30000-30003-2'') 2 = Some (Inr [30000, 30002])"
  unfolding get_udg_addresses_def
  by (simp add: split_count_def elements_30000_30003_2 addr_loop_width2)

lemma repeat_100x3:
  "get_udg_addresses (AddrStr ''100x3'') 1 = Some (Inr [100, 100, 100])"
proof -
  have c: "split_count ''100x3'' = Inr (''100'', 3)"
    by code_simp
  have e: "collect get_int_param (split_max (CHR ''-'') 3 ''100'') = Inr [100]"
    by code_simp
  have l: "addr_loop 100 100 1 1 1 [] = Some (Inr [100])"
    by (simp add: addr_loop.simps)
  have r: "replicate 3 (100::int) = [100, 100, 100]"
    by code_simp
  show ?thesis
    unfolding get_udg_addresses_def
    by (simp add: c e l r)
qed

text \<open>The loop that does not end: a horizontal step of 0 in a row of one tile.\<close>

lemma addr_loop_diverges_aux:
  assumes "addr_loop a e h v w addresses = Some y"
  shows "\<not> (a = 5 \<and> e = 10 \<and> h = 0 \<and> v = 0 \<and> w = 1)"
proof (rule addr_loop.raw_induct
    [where P = "\<lambda>a e h v w addresses y. \<not> (a = 5 \<and> e = 10 \<and> h = 0 \<and> v = 0 \<and> w = 1)", OF _ assms])
  fix f :: "int \<Rightarrow> int \<Rightarrow> int \<Rightarrow> int \<Rightarrow> int \<Rightarrow> int list \<Rightarrow> (error + int list) option"
  fix a e h v w :: int and addresses :: "int list" and y :: "error + int list"
  assume IH: "\<And>a e h v w addresses y. f a e h v w addresses = Some y \<Longrightarrow>
                \<not> (a = 5 \<and> e = 10 \<and> h = 0 \<and> v = 0 \<and> w = 1)"
  assume body: "(if a \<le> e
      then if w = 0 then Some (Inl ZeroDivisionError)
           else if int (length (addresses @ [a])) mod w \<noteq> 0
                then f (a + h) e h v w (addresses @ [a])
                else f (a + (v - (w - 1) * h)) e h v w (addresses @ [a])
      else Some (Inr addresses)) = Some y"
  show "\<not> (a = 5 \<and> e = 10 \<and> h = 0 \<and> v = 0 \<and> w = 1)"
  proof
    assume c: "a = 5 \<and> e = 10 \<and> h = 0 \<and> v = 0 \<and> w = 1"
    with body have "f 5 10 0 0 1 (addresses @ [5]) = Some y"
      by simp
    from IH [OF this] show False
      by simp
  qed
qed

lemma addr_loop_diverges: "addr_loop 5 10 0 0 1 addresses = None"
  using addr_loop_diverges_aux [of 5 10 0 0 1 addresses]
  by (cases "addr_loop 5 10 0 0 1 addresses") auto

text \<open>
  Claim C2, as stated, fails in its second half: for the string \<^verbatim>\<open>30000-30003-2\<close>
  and a row width of 2 the vertical step defaults to \<open>2 * 2 = 4\<close>, so after the row
  30000, 30002 the address moves on to 30004, beyond the end address; the list is
  \<open>[30000, 30002]\<close> and not \<open>[30000, 30002, 30001, 30003]\<close>.
\<close>

theorem get_udg_addresses_counterexample:
  "get_udg_addresses (AddrStr ''30000-30003-2'') 2 = Some (Inr [30000, 30002])
   \<and> get_udg_addresses (AddrStr ''30000-30003-2'') 2 \<noteq> Some (Inr [30000, 30002, 30001, 30003])"
  by (simp add: range_width2)

text \<open>
  Claim C2, amended: \<^verbatim>\<open>_get_udg_addresses\<close> of the string \<^verbatim>\<open>30000-30002\<close> with row
  width 1 returns \<open>[30000, 30001, 30002]\<close>, and of the string \<^verbatim>\<open>30000-30003-2\<close> with
  row width 2 returns \<open>[30000, 30002]\<close>.
\<close>

theorem get_udg_addresses_examples:
  "get_udg_addresses (AddrStr ''30000-30002'') 1 = Some (Inr [30000, 30001, 30002])
   \<and> get_udg_addresses (AddrStr ''30000-30003-2'') 2 = Some (Inr [30000, 30002])"
  by (simp add: range_width1 range_width2)

section \<open>Properties of screenshots\<close>

lemma collect_all2: "collect f xs = Inr ys \<Longrightarrow> list_all2 (\<lambda>x y. f x = Inr y) xs ys"
  by (induction xs arbitrary: ys) (auto split: sum.splits)

lemma collect_length: "collect f xs = Inr ys \<Longrightarrow> length ys = length xs"
  by (drule collect_all2) (rule list_all2_lengthD [symmetric])

lemma collect_total: "(\<And>x. x \<in> set xs \<Longrightarrow> \<exists>y. f x = Inr y) \<Longrightarrow> \<exists>ys. collect f xs = Inr ys"
  by (induction xs) (fastforce split: sum.splits)+

lemma screenshot_rows:
  assumes "screenshot snap x y w h df_addr af_addr = Inr g"
  shows "length g = nat (min h (24 - y)) \<and> (\<forall>row \<in> set g. length row = nat (min w (32 - x)))"
proof
  from collect_length [OF assms [unfolded screenshot_def]]
  show "length g = nat (min h (24 - y))"
    by simp
next
  from collect_all2 [OF assms [unfolded screenshot_def]]
  have "\<forall>row \<in> set g. \<exists>r. collect (\<lambda>c. get_screen_udg snap r c df_addr af_addr) [x..x + min w (32 - x) - 1] = Inr row"
    by (fastforce simp: list_all2_conv_all_nth in_set_conv_nth)
  then show "\<forall>row \<in> set g. length row = nat (min w (32 - x))"
    by (auto dest!: collect_length)
qed

lemma get_screen_udg_total:
  assumes "0 \<le> af_addr + 32 * row + col" and "af_addr + 32 * row + col < int (length snap)"
  shows "\<exists>u. get_screen_udg snap row col df_addr af_addr = Inr u"
  using assms by (simp add: get_screen_udg_def py_get_def py_index_def)

lemma screenshot_total:
  assumes "0 \<le> x" and "0 \<le> y" and "0 \<le> af_addr" and "af_addr + 768 \<le> int (length snap)"
  shows "\<exists>g. screenshot snap x y w h df_addr af_addr = Inr g"
  unfolding screenshot_def
proof (rule collect_total)
  fix r assume r: "r \<in> set [y..y + min h (24 - y) - 1]"
  show "\<exists>row. collect (\<lambda>c. get_screen_udg snap r c df_addr af_addr) [x..x + min w (32 - x) - 1] = Inr row"
  proof (rule collect_total)
    fix c assume c: "c \<in> set [x..x + min w (32 - x) - 1]"
    from r c assms have "0 \<le> af_addr + 32 * r + c" and "af_addr + 32 * r + c < int (length snap)"
      by auto
    then show "\<exists>u. get_screen_udg snap r c df_addr af_addr = Inr u"
      by (rule get_screen_udg_total)
  qed
qed

text \<open>The slice of step 256 out of a snapshot of equal bytes, and a screenshot of one tile.\<close>

lemma every_replicate: "every (Suc k) (replicate n x) = replicate ((n + k) div Suc k) x"
proof (induction n rule: less_induct)
  case (less n)
  show ?case
  proof (cases n)
    case 0
    then show ?thesis by simp
  next
    case (Suc m)
    have "every (Suc k) (replicate n x) = x # every (Suc k) (replicate (m - k) x)"
      using Suc by simp
    also have "\<dots> = x # replicate ((m - k + k) div Suc k) x"
      using less [of "m - k"] Suc by simp
    also have "\<dots> = replicate ((n + k) div Suc k) x"
    proof (cases "k \<le> m")
      case True
      have "(n + k) div Suc k = (m + Suc k) div Suc k"
        using Suc by simp
      also have "\<dots> = Suc (m div Suc k)"
        using div_add_self2 [of "Suc k" m] by simp
      finally have "(n + k) div Suc k = Suc (m div Suc k)" .
      with True show ?thesis by simp
    next
      case False
      then have "(n + k) div Suc k = 1"
        using Suc by (intro div_nat_eqI) auto
      moreover have "m - k + k = k"
        using False by simp
      ultimately show ?thesis by simp
    qed
    finally show ?thesis .
  qed
qed

lemma screenshot_example:
  "screenshot (replicate 65536 0) 31 23 5 5 16384 22528
     = Inr [[\<lparr>udg_attr = 0, udg_data = [0, 0, 0, 0, 0, 0, 0, 0], udg_mask = None\<rparr>]]"
proof -
  have r8: "replicate 8 (0::int) = [0, 0, 0, 0, 0, 0, 0, 0]"
    by code_simp
  show ?thesis
    by (simp add: screenshot_def get_screen_udg_def py_get_def py_index_def py_slice_def
        slice_bound_def every_replicate [of 255, simplified] r8)
qed

text \<open>
  Claim C10, as stated, fails where the region starts below the screen: for
  \<open>y = 25\<close> and \<open>h = 24\<close> the claim gives \<open>min 24 (24 - 25) = -1\<close> rows, and
  \<^verbatim>\<open>screenshot\<close> returns the grid without rows.
\<close>

theorem screenshot_counterexample:
  "screenshot (replicate 65536 0) 0 25 32 24 16384 22528 = Inr []
   \<and> int (length ([] :: udg list list)) \<noteq> min 24 (24 - 25)"
  by (simp add: screenshot_def)

text \<open>
  Claim C10, amended: for all \<open>x\<close>, \<open>y\<close>, \<open>w\<close>, \<open>h\<close>, a grid that \<^verbatim>\<open>screenshot\<close>
  returns has exactly \<open>max 0 (min h (24 - y))\<close> rows, each of exactly
  \<open>max 0 (min w (32 - x))\<close> tiles; and \<^verbatim>\<open>screenshot\<close> returns, raising no error,
  whenever \<open>x\<close> and \<open>y\<close> are not negative and the 768 bytes from the attribute file
  address on lie inside the snapshot.
\<close>

theorem screenshot_size:
  "(screenshot snap x y w h df_addr af_addr = Inr g \<longrightarrow>
      length g = nat (min h (24 - y)) \<and> (\<forall>row \<in> set g. length row = nat (min w (32 - x))))
   \<and> (0 \<le> x \<and> 0 \<le> y \<and> 0 \<le> af_addr \<and> af_addr + 768 \<le> int (length snap) \<longrightarrow>
        (\<exists>g'. screenshot snap x y w h df_addr af_addr = Inr g'))"
  using screenshot_rows [of snap x y w h df_addr af_addr g]
    screenshot_total [of x y af_addr snap w h df_addr]
  by blast

theorem screenshot_size_witness:
  "\<exists>g. screenshot (replicate 65536 0) 30 23 5 5 16384 22528 = Inr g
       \<and> length g = 1 \<and> (\<forall>row \<in> set g. length row = 2)"
proof -
  from screenshot_size [of "replicate 65536 0" 30 23 5 5 16384 22528]
  obtain g where g: "screenshot (replicate 65536 0) 30 23 5 5 16384 22528 = Inr g"
    by auto
  with screenshot_size [of "replicate 65536 0" 30 23 5 5 16384 22528 g]
  show ?thesis
    by simp
qed

section \<open>Properties of the tile-grid macro\<close>

lemma clauses_loop_snoc:
  "clauses_loop snap width (cs @ [c]) udg_array has_masks =
     (case clauses_loop snap width cs udg_array has_masks of
        None \<Rightarrow> None
      | Some (Inl e) \<Rightarrow> Some (Inl e)
      | Some (Inr (udg_array', has_masks')) \<Rightarrow> clause_step snap width c udg_array')"
proof (induction cs arbitrary: udg_array has_masks)
  case Nil
  show ?case
    by (simp split: option.split sum.split prod.split)
next
  case (Cons d cs)
  then show ?case
    by (simp split: option.split sum.split prod.split)
qed

lemma clause_step_has_masks:
  assumes "clause_step snap width c udg_array = Some (Inr (udg_array', has_masks'))"
  shows "\<exists>mask_addresses. clause_mask_addresses c width = Some (Inr mask_addresses)
           \<and> has_masks' = (mask_addresses \<noteq> [])"
  using assms unfolding clause_step_def
  by (auto split: option.splits sum.splits)

lemma last_clause_has_masks:
  assumes "clauses_loop snap width (cs @ [c]) udg_array has_masks = Some (Inr (udg_array', has_masks'))"
  shows "\<exists>mask_addresses. clause_mask_addresses c width = Some (Inr mask_addresses)
           \<and> has_masks' = (mask_addresses \<noteq> [])"
proof -
  from assms obtain a where "clause_step snap width c a = Some (Inr (udg_array', has_masks'))"
    by (auto simp: clauses_loop_snoc split: option.splits sum.splits)
  then show ?thesis
    by (rule clause_step_has_masks)
qed

lemma Frame_mask:
  "Frame udgs scale (MaskInt mt) x y width height delay = Inr fr \<Longrightarrow> frame_mask fr = mt"
  by (auto simp: Frame_def split: list.splits)

lemma store_frame_effect:
  assumes "store_frame w frame_id us scale mt crop = Inr w1"
  shows "encoded w1 = encoded w \<and> files w1 = files w \<and> replace_images w1 = replace_images w
         \<and> (\<forall>k fr. frames w1 k = Some fr \<longrightarrow> frames w k = Some fr \<or> frame_mask fr = mt)"
proof (cases "frame_id = []")
  case True
  with assms show ?thesis by (simp add: store_frame_def)
next
  case False
  obtain x y width height where crop: "crop = (x, y, width, height)"
    by (cases crop)
  from assms False crop obtain fr0 where
    fr0: "Frame us scale (MaskInt mt) x y width height 32 = Inr fr0"
    and w1: "w1 = w\<lparr>frames := (frames w)(frame_id \<mapsto> fr0)\<rparr>"
    by (auto simp: store_frame_def split: sum.splits)
  from fr0 have "frame_mask fr0 = mt" by (rule Frame_mask)
  with w1 show ?thesis by auto
qed

lemma write_image_effect:
  assumes "write_image w1 ip us crop scale (MaskInt mt) = Inr w2"
  shows "frames w2 = frames w1
         \<and> (\<exists>fr fmt. encoded w2 = encoded w1 @ [(ip, [fr], fmt)] \<and> frame_mask fr = mt)"
proof -
  obtain x y width height where crop: "crop = (x, y, width, height)"
    by (cases crop)
  from assms crop obtain fr where
    fr: "Frame us scale (MaskInt mt) x y width height 32 = Inr fr"
    and w2: "write_animated_image w1 ip [fr] = Inr w2"
    by (auto simp: write_image_def split: sum.splits)
  from fr have "frame_mask fr = mt" by (rule Frame_mask)
  with w2 show ?thesis
    by (auto simp: write_animated_image_def split: sum.splits)
qed

lemma render_udgarray_effect:
  assumes "render_udgarray w p crop name frame_id udg_array mt = Inr (w', out)"
  shows "(\<forall>k fr. frames w' k = Some fr \<longrightarrow> frames w k = Some fr \<or> frame_mask fr = mt)
         \<and> (encoded w' = encoded w
            \<or> (\<exists>ip fr fmt. encoded w' = encoded w @ [(ip, [fr], fmt)] \<and> frame_mask fr = mt))"
  using assms unfolding render_udgarray_def Let_def
  by (auto split: sum.splits option.splits if_splits
      dest!: store_frame_effect write_image_effect) blast+





text \<open>The example macro, evaluated.\<close>

lemma upto_0_7: "[0..7] = [0, 1, 2, 3, 4, 5, 6, 7]"
  by code_simp

lemma demo_loop:
  "clauses_loop [1, 2, 3, 4, 5, 6, 7, 8, 9, 10, 11, 12, 13, 14, 15, 16] 2
     [demo_masked, demo_plain] [[]] False = Some (Inr (demo_grid, False))"
  by (simp add: demo_masked_def demo_plain_def demo_grid_def clause_step_def
      get_udg_addresses_def clause_mask_addresses_def clause_mask_step_def pad_masks_def
      udg_bytes_def mask_bytes_def upto_0_7 py_get_def py_index_def append_udg_def)

lemma demo_path: "image_path (demo_writer replace existing) ''tile'' ''UDGImagePath''
   = Inr (Some ''images/udgs/tile.png'')"
  by (simp add: image_path_def demo_writer_def image_suffix_def lower_def last4_def
      lower_char_def join_def)


lemma demo_format: "get_image_format ''images/udgs/tile.png'' = Inr ''png''"
  by (simp add: get_image_format_def lower_def last4_def lower_char_def)

lemma demo_Frame: "Frame demo_grid 2 (MaskInt 0) 0 0 None None 32 = Inr demo_frame"
  by (simp add: Frame_def demo_grid_def demo_frame_def py_or_def)

lemma demo_finish_written:
  "ip \<notin> existing \<or> replace \<Longrightarrow> ip = ''images/udgs/tile.png'' \<Longrightarrow>
   finish_udgarray (demo_writer replace existing) demo_params (0, 0, None, None) ''tile''
       ''2,56,2,1,0,0,0,1;0:8;8(tile)'' demo_grid False
     = Inr ((demo_writer replace existing)
              \<lparr>files := insert ip existing, encoded := [(ip, [demo_frame], ''png'')]\<rparr>,
            Img ip)"
  by (simp add: finish_udgarray_def partition_star_def render_udgarray_def demo_path
      need_image_def file_exists_def effective_mask_type_def transform_udgs_def
      store_frame_def write_image_def demo_Frame write_animated_image_def demo_format
      demo_params_def)
     (auto simp: demo_writer_def)


lemma demo_current:
  "current (demo_writer replace existing) = [1, 2, 3, 4, 5, 6, 7, 8, 9, 10, 11, 12, 13, 14, 15, 16]"
  "p_width demo_params = 2"
  by (simp_all add: current_def demo_writer_def demo_params_def)

lemma demo_run_written:
  "ip \<notin> existing \<or> replace \<Longrightarrow> ip = ''images/udgs/tile.png'' \<Longrightarrow>
   expand_udgarray (demo_writer replace existing) demo_params [demo_masked, demo_plain]
       (0, 0, None, None) ''tile'' ''2,56,2,1,0,0,0,1;0:8;8(tile)''
     = Some (Inr ((demo_writer replace existing)
                    \<lparr>files := insert ip existing, encoded := [(ip, [demo_frame], ''png'')]\<rparr>,
                  Img ip))"
  using demo_finish_written [of ip existing replace]
  by (simp only: expand_udgarray_def demo_current demo_loop option.case sum.case prod.case)


lemma demo_loop_rev:
  "clauses_loop [1, 2, 3, 4, 5, 6, 7, 8, 9, 10, 11, 12, 13, 14, 15, 16] 2
     [demo_plain, demo_masked] [[]] False = Some (Inr (demo_grid_rev, True))"
  by (simp add: demo_masked_def demo_plain_def demo_grid_rev_def clause_step_def
      get_udg_addresses_def clause_mask_addresses_def clause_mask_step_def pad_masks_def
      udg_bytes_def mask_bytes_def upto_0_7 py_get_def py_index_def append_udg_def)

lemma demo_Frame_rev: "Frame demo_grid_rev 2 (MaskInt 1) 0 0 None None 32 = Inr demo_frame_rev"
  by (simp add: Frame_def demo_grid_rev_def demo_frame_rev_def py_or_def)

lemma demo_finish_rev:
  "finish_udgarray (demo_writer False {}) demo_params (0, 0, None, None) ''tile''
       ''2,56,2,1,0,0,0,1;8;0:8(tile)'' demo_grid_rev True
     = Inr ((demo_writer False {})
              \<lparr>files := {''images/udgs/tile.png''},
               encoded := [(''images/udgs/tile.png'', [demo_frame_rev], ''png'')]\<rparr>,
            Img ''images/udgs/tile.png'')"
  by (simp add: finish_udgarray_def partition_star_def render_udgarray_def demo_path
      need_image_def file_exists_def effective_mask_type_def transform_udgs_def
      store_frame_def write_image_def demo_Frame_rev write_animated_image_def demo_format
      demo_params_def)
     (auto simp: demo_writer_def)

lemma demo_run_rev:
  "expand_udgarray (demo_writer False {}) demo_params [demo_plain, demo_masked]
       (0, 0, None, None) ''tile'' ''2,56,2,1,0,0,0,1;8;0:8(tile)''
     = Some (Inr ((demo_writer False {})
                    \<lparr>files := {''images/udgs/tile.png''},
                     encoded := [(''images/udgs/tile.png'', [demo_frame_rev], ''png'')]\<rparr>,
                  Img ''images/udgs/tile.png''))"
  using demo_finish_rev
  by (simp only: expand_udgarray_def demo_current demo_loop_rev option.case sum.case prod.case)








text \<open>
  Claim C9: in the direct-source form, for an invocation that returns, the mask type
  that the rendering gets (in the frame stored in the cache and in the frame handed to
  the encoder) is decided by the last source clause alone: it is the mask type asked
  for when the mask address range of the last clause yields addresses, and 0 when it
  yields none; so it is 0 when the last clause has no mask address range, whatever
  masks the earlier clauses gave their tiles, and it is the mask type asked for when
  the last clause has masks, though the earlier clauses have none.
\<close>

theorem last_clause_decides_mask:
  assumes run: "expand_udgarray w p (cs @ [c]) crop fname src = Some (Inr (w', out))"
  shows "\<exists>mask_addresses mt.
           clause_mask_addresses c (p_width p) = Some (Inr mask_addresses)
         \<and> mt = (if mask_addresses = [] then 0 else p_mask_type p)
         \<and> (c_mask c = None \<longrightarrow> mt = 0)
         \<and> (\<forall>k fr. frames w' k = Some fr \<longrightarrow> frames w k = Some fr \<or> frame_mask fr = mt)
         \<and> (encoded w' = encoded w
            \<or> (\<exists>ip fr fmt. encoded w' = encoded w @ [(ip, [fr], fmt)] \<and> frame_mask fr = mt))"
proof -
  from run obtain udg_array has_masks where
    loop: "clauses_loop (current w) (p_width p) (cs @ [c]) [[]] False = Some (Inr (udg_array, has_masks))"
    and fin: "finish_udgarray w p crop fname src udg_array has_masks = Inr (w', out)"
    by (auto simp: expand_udgarray_def split: option.splits sum.splits)
  from last_clause_has_masks [OF loop] obtain mask_addresses where
    m: "clause_mask_addresses c (p_width p) = Some (Inr mask_addresses)"
    and hm: "has_masks = (mask_addresses \<noteq> [])"
    by blast
  let ?mt = "if mask_addresses = [] then 0 else p_mask_type p"
  from hm have mt: "effective_mask_type has_masks (p_mask_type p) = ?mt"
    by (simp add: effective_mask_type_def)
  from m have none: "c_mask c = None \<longrightarrow> ?mt = 0"
    by (auto simp: clause_mask_addresses_def)
  obtain name sep frame0 where ps: "partition_star fname = (name, sep, frame0)"
    by (cases "partition_star fname")
  from fin ps mt obtain frame_id where
    ren: "render_udgarray w p crop name frame_id udg_array ?mt = Inr (w', out)"
    by (auto simp: finish_udgarray_def Let_def split: if_splits)
  from render_udgarray_effect [OF ren]
  have st: "\<forall>k fr. frames w' k = Some fr \<longrightarrow> frames w k = Some fr \<or> frame_mask fr = ?mt"
    and en: "encoded w' = encoded w
            \<or> (\<exists>ip fr fmt. encoded w' = encoded w @ [(ip, [fr], fmt)] \<and> frame_mask fr = ?mt)"
    by simp_all
  show ?thesis
  proof (rule exI [of _ mask_addresses], rule exI [of _ ?mt], intro conjI)
    show "clause_mask_addresses c (p_width p) = Some (Inr mask_addresses)"
      by (rule m)
    show "?mt = ?mt"
      by (rule refl)
    show "c_mask c = None \<longrightarrow> ?mt = 0"
      by (rule none)
    show "\<forall>k fr. frames w' k = Some fr \<longrightarrow> frames w k = Some fr \<or> frame_mask fr = ?mt"
      by (rule st)
    show "encoded w' = encoded w
            \<or> (\<exists>ip fr fmt. encoded w' = encoded w @ [(ip, [fr], fmt)] \<and> frame_mask fr = ?mt)"
      by (rule en)
  qed
qed

theorem last_clause_decides_mask_witness:
  "(\<exists>w' out ip fr fmt.
      expand_udgarray (demo_writer False {}) demo_params ([demo_masked] @ [demo_plain])
          (0, 0, None, None) ''tile'' ''2,56,2,1,0,0,0,1;0:8;8(tile)'' = Some (Inr (w', out))
      \<and> c_mask demo_masked \<noteq> None \<and> c_mask demo_plain = None \<and> p_mask_type demo_params = 1
      \<and> encoded w' = [(ip, [fr], fmt)] \<and> frame_mask fr = 0
      \<and> udg_mask (hd (hd (frame_udgs fr))) = Some [9, 10, 11, 12, 13, 14, 15, 16])
   \<and> (\<exists>w' out ip fr fmt.
      expand_udgarray (demo_writer False {}) demo_params ([demo_plain] @ [demo_masked])
          (0, 0, None, None) ''tile'' ''2,56,2,1,0,0,0,1;8;0:8(tile)'' = Some (Inr (w', out))
      \<and> encoded w' = [(ip, [fr], fmt)] \<and> frame_mask fr = 1
      \<and> udg_mask (hd (hd (frame_udgs fr))) = None)"
  using
    last_clause_decides_mask [of "demo_writer False {}" demo_params "[demo_masked]" demo_plain
      "(0, 0, None, None)" "''tile''" "''2,56,2,1,0,0,0,1;0:8;8(tile)''"
      "(demo_writer False {})\<lparr>files := insert ''images/udgs/tile.png'' {},
          encoded := [(''images/udgs/tile.png'', [demo_frame], ''png'')]\<rparr>"
      "Img ''images/udgs/tile.png''"]
    last_clause_decides_mask [of "demo_writer False {}" demo_params "[demo_plain]" demo_masked
      "(0, 0, None, None)" "''tile''" "''2,56,2,1,0,0,0,1;8;0:8(tile)''"
      "(demo_writer False {})\<lparr>files := {''images/udgs/tile.png''},
          encoded := [(''images/udgs/tile.png'', [demo_frame_rev], ''png'')]\<rparr>"
      "Img ''images/udgs/tile.png''"]
    demo_run_written [of "''images/udgs/tile.png''" "{}" False]
    demo_run_rev
  by (simp add: demo_plain_def demo_masked_def demo_params_def demo_frame_def demo_grid_def
      demo_frame_rev_def demo_grid_rev_def)

section \<open>Properties of the frame-composition form\<close>

lemma frame_clause_ok:
  "delay_ok q \<Longrightarrow> \<exists>delay dd. frame_clause q default_delay = Inr (frame_id_of q, delay, dd)"
  by (auto simp: delay_ok_def frame_clause_def frame_id_of_def rsplit1_def)

lemma frames_loop_first_bad:
  assumes "\<forall>q \<in> set pre. delay_ok q \<and> frame_id_of q \<noteq> [] \<and> fs (frame_id_of q) \<noteq> None"
    and "delay_ok c"
    and "dom fs = D"
  shows "(frame_id_of c = [] \<longrightarrow>
            frames_loop src (pre @ c # post) fs default_delay ids = Inl (missing_frame_id src))
       \<and> (frame_id_of c \<noteq> [] \<and> frame_id_of c \<notin> D \<longrightarrow>
            frames_loop src (pre @ c # post) fs default_delay ids = Inl (no_such_frame (frame_id_of c)))"
  using assms
proof (induction pre arbitrary: fs default_delay ids)
  case Nil
  from frame_clause_ok [OF Nil(2), of default_delay]
  obtain delay dd where "frame_clause c default_delay = Inr (frame_id_of c, delay, dd)"
    by blast
  with Nil(3) show ?case
    by (auto simp: domIff)
next
  case (Cons q pre)
  from Cons.prems(1) have q: "delay_ok q" "frame_id_of q \<noteq> []" and "fs (frame_id_of q) \<noteq> None"
    by simp_all
  then obtain fr where fr: "fs (frame_id_of q) = Some fr"
    by blast
  from frame_clause_ok [OF q(1), of default_delay]
  obtain delay dd where fc: "frame_clause q default_delay = Inr (frame_id_of q, delay, dd)"
    by blast
  let ?fs = "fs(frame_id_of q \<mapsto> fr\<lparr>frame_delay := delay\<rparr>)"
  have step: "frames_loop src ((q # pre) @ c # post) fs default_delay ids
                = frames_loop src (pre @ c # post) ?fs dd (ids @ [frame_id_of q])"
    using fc fr q(2) by simp
  have pre': "\<forall>q \<in> set pre. delay_ok q \<and> frame_id_of q \<noteq> [] \<and> ?fs (frame_id_of q) \<noteq> None"
    using Cons.prems(1) by simp
  have dom': "dom ?fs = D"
    using fr Cons.prems(3) by auto
  from Cons.IH [OF pre' Cons.prems(2) dom', of dd "ids @ [frame_id_of q]"]
  show ?case
    unfolding step .
qed

text \<open>The example writer with a cached frame: its image path, two lists of frames.\<close>

lemma demo_anim_path:
  "image_path (demo_animator existing) ''anim.gif'' ''UDGImagePath''
     = Inr (Some ''images/udgs/anim.gif'')"
  by (simp add: image_path_def image_suffix_def lower_def last4_def lower_char_def join_def
      demo_animator_def demo_writer_def)

lemma demo_items:
  "split_all (CHR '';'') (drop 1 ''*a;nosuch,5;b'') = [''a''] @ ''nosuch,5'' # [''b'']"
  "split_all (CHR '';'') (drop 1 ''*a;;b'') = [''a''] @ [] # [''b'']"
  by simp_all

lemma demo_item_facts:
  "delay_ok ''a''" "frame_id_of ''a'' = ''a''"
  "delay_ok ''nosuch,5''" "frame_id_of ''nosuch,5'' = ''nosuch''"
  "delay_ok []" "frame_id_of [] = []"
  by (simp_all add: delay_ok_def frame_id_of_def rsplit1_def parse_int_def get_int_param_def
      literal_value_def digit_of_def)

lemma demo_frame_clauses:
  "frame_clause ''a,10'' 32 = Inr (''a'', 10, 10)"
  "frame_clause ''a,20'' 10 = Inr (''a'', 20, 20)"
  by (simp_all add: frame_clause_def rsplit1_def parse_int_def get_int_param_def
      literal_value_def digit_of_def)

lemma demo_animation:
  "expand_udgarray_with_frames (demo_animator {}) ''*a,10;a,20'' ''anim.gif'' ''*a,10;a,20''
     = Inr ((demo_animator {})
              \<lparr>frames := [''a'' \<mapsto> demo_frame\<lparr>frame_delay := 20\<rparr>],
               files := {''images/udgs/anim.gif''},
               encoded := [(''images/udgs/anim.gif'',
                            [demo_frame\<lparr>frame_delay := 20\<rparr>, demo_frame\<lparr>frame_delay := 20\<rparr>],
                            ''gif'')]\<rparr>,
            Img ''images/udgs/anim.gif'')"
proof -
  have fmt: "get_image_format ''images/udgs/anim.gif'' = Inr ''gif''"
    by (simp add: get_image_format_def lower_def last4_def lower_char_def)
  have items: "split_all (CHR '';'') (drop 1 ''*a,10;a,20'') = [''a,10'', ''a,20'']"
    by simp
  have cache: "frames (demo_animator {}) = [''a'' \<mapsto> demo_frame]"
    and absent: "need_image (demo_animator {}) ''images/udgs/anim.gif''"
    by (simp_all add: demo_animator_def demo_writer_def need_image_def file_exists_def)
  show ?thesis
    by (simp add: expand_udgarray_with_frames_def demo_anim_path absent items cache
        demo_frame_clauses write_animated_image_def fmt List.map_filter_def)
       (simp add: demo_animator_def demo_writer_def)
qed

text \<open>
  Claim C3, as stated, fails where the image is not needed: the file of the animation
  exists and \<^verbatim>\<open>replace_images\<close> is false, so the list of frames is not read and the
  identifier \<^verbatim>\<open>nosuch\<close>, which the cache does not hold, raises nothing.
\<close>

theorem frames_form_counterexample:
  "expand_udgarray_with_frames (demo_writer False {''images/udgs/anim.gif''})
       ''*nosuch'' ''anim.gif'' ''*nosuch(anim.gif)''
     = Inr (demo_writer False {''images/udgs/anim.gif''}, Img ''images/udgs/anim.gif'')
   \<and> frames (demo_writer False {''images/udgs/anim.gif''}) ''nosuch'' = None"
  by (simp add: expand_udgarray_with_frames_def image_path_def image_suffix_def lower_def
      last4_def lower_char_def join_def need_image_def file_exists_def demo_writer_def)

text \<open>
  Claim C3, amended: for a frame-composition invocation with a file name that is not
  blank and resolves to an image path. When the image is needed (the file does not
  exist, or \<^verbatim>\<open>replace_images\<close> is true), the first item of the list whose frame
  identifier is empty or is not in the cache raises a MacroParsingError: "Missing
  frame ID" with the text of the macro for the empty identifier, "No such frame" with
  the identifier for the unknown one; this for a list whose items before that one
  have a cached identifier, and where they and the item itself have an integer delay
  if any (else the error of the earlier item, or "Invalid delay parameter", is what
  is raised). When the image is not needed, the list is not examined, whatever it
  holds: nothing is raised and the image element is returned, with the writer as it
  was.
\<close>

theorem frames_form_errors:
  assumes fname: "fname \<noteq> []"
    and path: "image_path w fname ''UDGImagePath'' = Inr (Some ip)"
  shows "(need_image w ip
          \<and> split_all (CHR '';'') (drop 1 frame_params) = pre @ c # post
          \<and> (\<forall>q \<in> set pre. delay_ok q \<and> frame_id_of q \<noteq> [] \<and> frames w (frame_id_of q) \<noteq> None)
          \<and> delay_ok c \<and> frame_id_of c = [] \<longrightarrow>
            expand_udgarray_with_frames w frame_params fname src = Inl (missing_frame_id src))
       \<and> (need_image w ip
          \<and> split_all (CHR '';'') (drop 1 frame_params) = pre @ c # post
          \<and> (\<forall>q \<in> set pre. delay_ok q \<and> frame_id_of q \<noteq> [] \<and> frames w (frame_id_of q) \<noteq> None)
          \<and> delay_ok c \<and> frame_id_of c \<noteq> [] \<and> frames w (frame_id_of c) = None \<longrightarrow>
            expand_udgarray_with_frames w frame_params fname src
              = Inl (no_such_frame (frame_id_of c)))
       \<and> (\<not> need_image w ip \<longrightarrow>
            expand_udgarray_with_frames w frame_params fname src = Inr (w, Img ip))"
proof (intro conjI impI)
  assume h: "need_image w ip
          \<and> split_all (CHR '';'') (drop 1 frame_params) = pre @ c # post
          \<and> (\<forall>q \<in> set pre. delay_ok q \<and> frame_id_of q \<noteq> [] \<and> frames w (frame_id_of q) \<noteq> None)
          \<and> delay_ok c \<and> frame_id_of c = []"
  then have pre: "\<forall>q \<in> set pre. delay_ok q \<and> frame_id_of q \<noteq> [] \<and> frames w (frame_id_of q) \<noteq> None"
    and c: "delay_ok c"
    by simp_all
  from frames_loop_first_bad [OF pre c refl, of src post 32 "[]"] h fname path
  show "expand_udgarray_with_frames w frame_params fname src = Inl (missing_frame_id src)"
    by (simp add: expand_udgarray_with_frames_def)
next
  assume h: "need_image w ip
          \<and> split_all (CHR '';'') (drop 1 frame_params) = pre @ c # post
          \<and> (\<forall>q \<in> set pre. delay_ok q \<and> frame_id_of q \<noteq> [] \<and> frames w (frame_id_of q) \<noteq> None)
          \<and> delay_ok c \<and> frame_id_of c \<noteq> [] \<and> frames w (frame_id_of c) = None"
  then have pre: "\<forall>q \<in> set pre. delay_ok q \<and> frame_id_of q \<noteq> [] \<and> frames w (frame_id_of q) \<noteq> None"
    and c: "delay_ok c"
    by simp_all
  from frames_loop_first_bad [OF pre c refl, of src post 32 "[]"] h fname path
  show "expand_udgarray_with_frames w frame_params fname src = Inl (no_such_frame (frame_id_of c))"
    by (simp add: expand_udgarray_with_frames_def domIff)
next
  assume "\<not> need_image w ip"
  with fname path
  show "expand_udgarray_with_frames w frame_params fname src = Inr (w, Img ip)"
    by (simp add: expand_udgarray_with_frames_def)
qed

theorem frames_form_errors_witness:
  "expand_udgarray_with_frames (demo_animator {}) ''*a;nosuch,5;b'' ''anim.gif''
       ''*a;nosuch,5;b(anim.gif)''
     = Inl (MacroParsingError (''No such frame: '' @ [CHR 0x22] @ ''nosuch'' @ [CHR 0x22]))
   \<and> expand_udgarray_with_frames (demo_animator {}) ''*a;;b'' ''anim.gif'' ''*a;;b(anim.gif)''
     = Inl (MacroParsingError ''Missing frame ID: #UDGARRAY*a;;b(anim.gif)'')
   \<and> expand_udgarray_with_frames (demo_animator {''images/udgs/anim.gif''}) ''*a,xyz;nosuch''
       ''anim.gif'' ''*a,xyz;nosuch(anim.gif)''
     = Inr (demo_animator {''images/udgs/anim.gif''}, Img ''images/udgs/anim.gif'')"
  using
    frames_form_errors [where w = "demo_animator {}" and fname = "''anim.gif''"
      and frame_params = "''*a;nosuch,5;b''" and pre = "[''a'']" and c = "''nosuch,5''"
      and post = "[''b'']" and src = "''*a;nosuch,5;b(anim.gif)''", OF _ demo_anim_path]
    frames_form_errors [where w = "demo_animator {}" and fname = "''anim.gif''"
      and frame_params = "''*a;;b''" and pre = "[''a'']" and c = "[]"
      and post = "[''b'']" and src = "''*a;;b(anim.gif)''", OF _ demo_anim_path]
    frames_form_errors [where w = "demo_animator {''images/udgs/anim.gif''}"
      and fname = "''anim.gif''" and frame_params = "''*a,xyz;nosuch''"
      and src = "''*a,xyz;nosuch(anim.gif)''", OF _ demo_anim_path]
  by (simp add: demo_item_facts need_image_def file_exists_def no_such_frame_def
      missing_frame_id_def)
     (simp add: demo_animator_def demo_writer_def)

end
